theory Spec2Isabelle
  imports Complex_Main "HOL-Library.AList" "HOL-Library.Product_Lexorder"
begin

chapter \<open>The dispatch core: model\<close>

text \<open>
  Each class of the repository keeps its state in static fields; the model passes that
  state explicitly. Every read of \<^verbatim>\<open>Date.now()\<close> is an argument (epoch milliseconds)
  or a clock field of the state. Thrown values are results \<open>Inl e\<close>. JavaScript numbers
  that hold counts, instants and minutes are \<open>int\<close> or \<open>nat\<close>. TTL multipliers and
  threat scores are \<open>real\<close>, the exact-arithmetic reading of the doubles. Coordinates
  and distances are the doubles themselves: reals that every operation rounds to the
  nearest binary64 value.
\<close>

section \<open>JavaScript values used across the modules\<close>

text \<open>
  What the code throws: \<^verbatim>\<open>new _functions.https.HttpsError(code, message)\<close>,
  \<^verbatim>\<open>new Error(message)\<close>, the engine's own \<^verbatim>\<open>TypeError\<close> (a property read on
  \<^verbatim>\<open>undefined\<close>) and \<^verbatim>\<open>ReferenceError\<close> (an identifier that is not declared), or
  a value that is no object: \<^verbatim>\<open>undefined\<close> (also what \<^verbatim>\<open>throw lastError\<close> throws with
  nothing caught).
\<close>

datatype js_error =
    HttpsError string string
  | Error string
  | TypeError string
  | ReferenceError string
  | ThrownUndefined

fun message :: "js_error \<Rightarrow> string" where
  "message (HttpsError code msg) = msg"
| "message (Error msg) = msg"
| "message (TypeError msg) = msg"
| "message (ReferenceError msg) = msg"
| "message ThrownUndefined = []"

text \<open>Template literals print integers in decimal.\<close>

function show_nat :: "nat \<Rightarrow> string" where
  "show_nat n =
     (if n < 10 then [''0123456789'' ! n]
      else show_nat (n div 10) @ [''0123456789'' ! (n mod 10)])"
  by pat_completeness auto
termination
  by (relation "measure id") auto

declare show_nat.simps [simp del]

definition show_int :: "int \<Rightarrow> string" where
  "show_int i = (if i < 0 then CHR ''-'' # show_nat (nat (- i)) else show_nat (nat i))"

text \<open>\<^verbatim>\<open>String.prototype.toUpperCase\<close> on one ASCII character.\<close>

definition toUpperCase_char :: "char \<Rightarrow> char" where
  "toUpperCase_char c =
     (case map_of (zip ''abcdefghijklmnopqrstuvwxyz'' ''ABCDEFGHIJKLMNOPQRSTUVWXYZ'') c of
        Some u \<Rightarrow> u
      | None \<Rightarrow> c)"

text \<open>\<^verbatim>\<open>s.startsWith(p)\<close> and \<^verbatim>\<open>s.includes(p)\<close>.\<close>

fun startsWith :: "string \<Rightarrow> string \<Rightarrow> bool" where
  "startsWith s [] = True"
| "startsWith [] (p # ps) = False"
| "startsWith (c # cs) (p # ps) = (c = p \<and> startsWith cs ps)"

fun js_includes :: "string \<Rightarrow> string \<Rightarrow> bool" where
  "js_includes [] p = (p = [])"
| "js_includes (c # cs) p = (startsWith (c # cs) p \<or> js_includes cs p)"

text \<open>
  \<^verbatim>\<open>SecurityLogger.logCriticalAction(userId, action, details)\<close> appends to an audit
  log; the module is outside the repository's sources. An entry keeps the user, the
  action and the id the details are about.
\<close>

type_synonym critical_action = "string \<times> string \<times> string"

section \<open>Cache core: \<open>CacheManager\<close>\<close>

text \<open>
  \<^verbatim>\<open>static cache = new Map()\<close> holds entries \<^verbatim>\<open>{data, timestamp, ttl}\<close>;
  \<^verbatim>\<open>null\<close> is \<open>None\<close>.
\<close>

record 'v cache_entry =
  data :: 'v
  timestamp :: int
  ttl :: int

type_synonym 'v cache = "string \<rightharpoonup> 'v cache_entry"

definition CacheManager_get :: "'v cache \<Rightarrow> int \<Rightarrow> string \<Rightarrow> 'v option" where
  "CacheManager_get c now key =
     (case c key of
        None \<Rightarrow> None
      | Some cached \<Rightarrow> if now - timestamp cached < ttl cached then Some (data cached) else None)"

definition CacheManager_set :: "'v cache \<Rightarrow> int \<Rightarrow> string \<Rightarrow> 'v \<Rightarrow> int \<Rightarrow> 'v cache" where
  "CacheManager_set c now key v ttlMinutes =
     c(key \<mapsto> \<lparr>data = v, timestamp = now, ttl = ttlMinutes * 60 * 1000\<rparr>)"

text \<open>A later history of \<^verbatim>\<open>set\<close> calls, each \<open>(instant, key, value, ttlMinutes)\<close>.\<close>

fun CacheManager_sets :: "'v cache \<Rightarrow> (int \<times> string \<times> 'v \<times> int) list \<Rightarrow> 'v cache" where
  "CacheManager_sets c [] = c"
| "CacheManager_sets c ((t, key, v, ttlMinutes) # rest) =
     CacheManager_sets (CacheManager_set c t key v ttlMinutes) rest"

section \<open>Adaptive cache: \<open>AdvancedCacheManager\<close>\<close>

record hit_rate =
  hits :: nat
  total :: nat

record 'v adv_cache =
  cache :: "'v cache"
  accessPatterns :: "string \<rightharpoonup> int list"
  hitRates :: "string \<rightharpoonup> hit_rate"

definition recordAccess :: "int \<Rightarrow> string \<Rightarrow> 'v adv_cache \<Rightarrow> 'v adv_cache" where
  "recordAccess now key st =
     (let pattern = (case accessPatterns st key of None \<Rightarrow> [] | Some p \<Rightarrow> p) @ [now];
          pattern' = (if length pattern > 200 then drop (length pattern - 100) pattern
                      else pattern)
      in st\<lparr>accessPatterns := (accessPatterns st)(key \<mapsto> pattern')\<rparr>)"

definition recordHit :: "string \<Rightarrow> 'v adv_cache \<Rightarrow> 'v adv_cache" where
  "recordHit key st =
     (let stats = (case hitRates st key of None \<Rightarrow> \<lparr>hits = 0, total = 0\<rparr> | Some s \<Rightarrow> s)
      in st\<lparr>hitRates := (hitRates st)(key \<mapsto> \<lparr>hits = hits stats + 1, total = total stats + 1\<rparr>)\<rparr>)"

definition recordMiss :: "string \<Rightarrow> 'v adv_cache \<Rightarrow> 'v adv_cache" where
  "recordMiss key st =
     (let stats = (case hitRates st key of None \<Rightarrow> \<lparr>hits = 0, total = 0\<rparr> | Some s \<Rightarrow> s)
      in st\<lparr>hitRates := (hitRates st)(key \<mapsto> stats\<lparr>total := total stats + 1\<rparr>)\<rparr>)"

definition calculateOptimalTTL :: "int \<Rightarrow> string \<Rightarrow> int \<Rightarrow> 'v adv_cache \<Rightarrow> int" where
  "calculateOptimalTTL now key baseMinutes st =
     (let accessPattern = (case accessPatterns st key of None \<Rightarrow> [] | Some p \<Rightarrow> p);
          hitRate = hitRates st key
      in if length accessPattern < 5 then baseMinutes
         else
           let recentAccesses = filter (\<lambda>time. now - time < 60 * 60 * 1000) accessPattern;
               accessFrequency = length recentAccesses;
               multiplier = (if accessFrequency > 50 then 3.0
                             else if accessFrequency > 20 then 2.0
                             else if accessFrequency < 5 then 0.5
                             else (1.0 :: real));
               multiplier' =
                 (case hitRate of
                    None \<Rightarrow> multiplier
                  | Some h \<Rightarrow>
                      if total h > 10 then
                        let hitRatePercent = real (hits h) / real (total h)
                        in if hitRatePercent > 0.9 then multiplier * 1.2
                           else if hitRatePercent < 0.3 then multiplier * 0.8
                           else multiplier
                      else multiplier)
           in max 1 (min 120 \<lfloor>real_of_int baseMinutes * multiplier'\<rfloor>))"

text \<open>
  \<^verbatim>\<open>getWithSmartTTL(key, fallbackFunction, baseMinutes)\<close>: the loader's outcome is an
  argument; \<open>now\<close> is the clock at entry and \<open>now'\<close> after the loader has returned.
\<close>

definition getWithSmartTTL ::
  "int \<Rightarrow> int \<Rightarrow> string \<Rightarrow> js_error + 'v \<Rightarrow> int \<Rightarrow> 'v adv_cache \<Rightarrow> (js_error + 'v) \<times> 'v adv_cache"
where
  "getWithSmartTTL now now' key fallbackFunction baseMinutes st =
     (let st1 = recordAccess now key st
      in case CacheManager_get (cache st1) now key of
           Some cached \<Rightarrow> (Inr cached, recordHit key st1)
         | None \<Rightarrow>
             let st2 = recordMiss key st1
             in (case fallbackFunction of
                   Inl e \<Rightarrow> (Inl e, st2)
                 | Inr loaded \<Rightarrow>
                     let optimizedTTL = calculateOptimalTTL now' key baseMinutes st2
                     in (Inr loaded,
                         st2\<lparr>cache := CacheManager_set (cache st2) now' key loaded optimizedTTL\<rparr>)))"

section \<open>Resource admission: \<open>SmartResourceManager\<close>\<close>

definition resourceLimits :: "(string \<times> int) list" where
  "resourceLimits =
     [(''maxConcurrentDispatch'', 100),
      (''maxMemoryUsage'', 512 * 1024 * 1024),
      (''maxCPUUsage'', 80),
      (''maxDatabaseConnections'', 50)]"

record resource_alert =
  alertResourceType :: string
  alertCurrentUsage :: int
  alertLimit :: int
  alertRequestedAmount :: int

record resource_state =
  resourceUsage :: "string \<rightharpoonup> int"
  resource_alerts :: "resource_alert list"
  prioritizedRuns :: nat
  resourceLog :: "critical_action list"

definition initialResources :: resource_state where
  "initialResources =
     \<lparr>resourceUsage = [''activeDispatch'' \<mapsto> 0, ''memoryUsage'' \<mapsto> 0, ''cpuUsage'' \<mapsto> 0,
                        ''databaseConnections'' \<mapsto> 0],
      resource_alerts = [], prioritizedRuns = 0, resourceLog = []\<rparr>"

text \<open>A returned handle: \<^verbatim>\<open>{release, resourceType, amount}\<close>.\<close>

record handle =
  handleResourceType :: string
  handleAmount :: int

text \<open>\<^verbatim>\<open>`max${resourceType.charAt(0).toUpperCase() + resourceType.slice(1)}`\<close>\<close>

definition limitKey :: "string \<Rightarrow> string" where
  "limitKey resourceType =
     ''max'' @ (case resourceType of [] \<Rightarrow> [] | c # cs \<Rightarrow> toUpperCase_char c # cs)"

definition handleResourceExhaustion ::
  "string \<Rightarrow> int \<Rightarrow> int \<Rightarrow> int \<Rightarrow> resource_state \<Rightarrow> resource_state" where
  "handleResourceExhaustion resourceType current limit requested st =
     (let st1 = st\<lparr>resource_alerts := resource_alerts st @
                   [\<lparr>alertResourceType = resourceType, alertCurrentUsage = current,
                     alertLimit = limit, alertRequestedAmount = requested\<rparr>]\<rparr>;
          st2 = (if resourceType = ''activeDispatch''
                 then st1\<lparr>prioritizedRuns := prioritizedRuns st1 + 1\<rparr> else st1)
      in st2\<lparr>resourceLog := resourceLog st2 @ [(''system'', ''resource_exhaustion'', resourceType)]\<rparr>)"

definition acquireResource ::
  "string \<Rightarrow> int \<Rightarrow> resource_state \<Rightarrow> (js_error + handle) \<times> resource_state" where
  "acquireResource resourceType amount st =
     (case map_of resourceLimits (limitKey resourceType) of
        None \<Rightarrow> (Inl (Error (''Undefined resource type: '' @ resourceType)), st)
      | Some limit \<Rightarrow>
          let currentUsage = (case resourceUsage st resourceType of None \<Rightarrow> 0 | Some u \<Rightarrow> u)
          in if currentUsage + amount > limit
             then (Inl (HttpsError ''resource-exhausted''
                          (''Resource limit exceeded for '' @ resourceType @ '': '' @
                           show_int (currentUsage + amount) @ ''/'' @ show_int limit)),
                   handleResourceExhaustion resourceType currentUsage limit amount st)
             else (Inr \<lparr>handleResourceType = resourceType, handleAmount = amount\<rparr>,
                   st\<lparr>resourceUsage := (resourceUsage st)(resourceType \<mapsto> currentUsage + amount)\<rparr>))"

definition releaseResource :: "string \<Rightarrow> int \<Rightarrow> resource_state \<Rightarrow> resource_state" where
  "releaseResource resourceType amount st =
     st\<lparr>resourceUsage := (resourceUsage st)(resourceType \<mapsto>
          max 0 ((case resourceUsage st resourceType of None \<Rightarrow> 0 | Some u \<Rightarrow> u) - amount))\<rparr>"

definition release :: "handle \<Rightarrow> resource_state \<Rightarrow> resource_state" where
  "release h st = releaseResource (handleResourceType h) (handleAmount h) st"

section \<open>Job scheduler: \<open>BackgroundJobScheduler\<close>\<close>

text \<open>
  A schedule is a number (a one-shot epoch, \<^verbatim>\<open>typeof job.schedule === 'number'\<close>) or a
  string token. The job table is a \<^verbatim>\<open>Map\<close>, iterated in insertion order: an
  association list. The job's function is outside the model; what one run of it does is
  the \<open>job_outcome\<close> handed to \<open>executeJob\<close>.
\<close>

datatype schedule = Epoch int | Token string

datatype job_status = Scheduled | Running | Completed | Failed | Timeout

datatype priority = High | Normal | Low

record job_options =
  priority :: priority
  maxRetries :: int
  timeout :: int

record job =
  jobId :: string
  jobSchedule :: schedule
  options :: job_options
  nextRun :: int
  lastRun :: "int option"
  retryCount :: int
  status :: job_status
  startedAt :: "int option"
  executionTime :: "int option"
  lastError :: "string option"

record scheduler =
  jobs :: "(string \<times> job) list"
  currentlyRunning :: "string set"
  schedulerLog :: "critical_action list"

definition emptyScheduler :: scheduler where
  "emptyScheduler = \<lparr>jobs = [], currentlyRunning = {}, schedulerLog = []\<rparr>"

text \<open>The \<^verbatim>\<open>options\<close> argument of \<^verbatim>\<open>scheduleJob\<close>: each key may be absent.\<close>

record schedule_options =
  optPriority :: "priority option"
  optMaxRetries :: "int option"
  optTimeout :: "int option"

definition parseInterval :: "string \<Rightarrow> int" where
  "parseInterval scheduleString =
     (case map_of
        [(''every second'', 1000),
         (''every 5 seconds'', 5 * 1000),
         (''every 10 seconds'', 10 * 1000),
         (''every 30 seconds'', 30 * 1000),
         (''every minute'', 60 * 1000),
         (''every 5 minutes'', 5 * 60 * 1000),
         (''every 10 minutes'', 10 * 60 * 1000),
         (''every 30 minutes'', 30 * 60 * 1000),
         (''every hour'', 60 * 60 * 1000),
         (''every day'', 24 * 60 * 60 * 1000)] scheduleString of
        Some interval \<Rightarrow> interval
      | None \<Rightarrow> 60 * 1000)"

definition calculateNextRun :: "int \<Rightarrow> schedule \<Rightarrow> int" where
  "calculateNextRun now sched =
     (case sched of
        Epoch s \<Rightarrow> if s > now then s else now
      | Token t \<Rightarrow> if startsWith t ''every '' then now + parseInterval t else now + 60000)"

text \<open>
  The defaults of \<^verbatim>\<open>scheduleJob\<close> are followed by \<^verbatim>\<open>...options\<close>, so a key that
  is present keeps the value given.
\<close>

definition newJob :: "int \<Rightarrow> string \<Rightarrow> schedule \<Rightarrow> schedule_options \<Rightarrow> job" where
  "newJob now jid sched opts =
     \<lparr>jobId = jid, jobSchedule = sched,
      options = \<lparr>priority = (case optPriority opts of None \<Rightarrow> Normal | Some p \<Rightarrow> p),
                 maxRetries = (case optMaxRetries opts of None \<Rightarrow> 3 | Some m \<Rightarrow> m),
                 timeout = (case optTimeout opts of None \<Rightarrow> 300000 | Some t \<Rightarrow> t)\<rparr>,
      nextRun = calculateNextRun now sched, lastRun = None, retryCount = 0,
      status = Scheduled, startedAt = None, executionTime = None, lastError = None\<rparr>"

definition scheduleJob ::
  "int \<Rightarrow> string \<Rightarrow> schedule \<Rightarrow> schedule_options \<Rightarrow> scheduler \<Rightarrow> scheduler" where
  "scheduleJob now jid sched opts st =
     st\<lparr>jobs := AList.update jid (newJob now jid sched opts) (jobs st)\<rparr>"

fun priorityOrder :: "priority \<Rightarrow> nat" where
  "priorityOrder High = 0"
| "priorityOrder Normal = 1"
| "priorityOrder Low = 2"

text \<open>\<^verbatim>\<open>Array.prototype.sort\<close> is stable, as \<open>sort_key\<close> is.\<close>

definition getReadyJobs :: "int \<Rightarrow> scheduler \<Rightarrow> job list" where
  "getReadyJobs now st =
     sort_key (\<lambda>j. (priorityOrder (priority (options j)), nextRun j))
       (filter (\<lambda>j. nextRun j \<le> now \<and>
                     (status j = Scheduled \<or>
                      (status j = Failed \<and> retryCount j < maxRetries (options j))) \<and>
                     jobId j \<notin> currentlyRunning st)
          (map snd (jobs st)))"

definition isOneShot :: "job \<Rightarrow> bool" where
  "isOneShot j = (case jobSchedule j of Epoch s \<Rightarrow> True | Token t \<Rightarrow> False)"

definition elapsed :: "int \<Rightarrow> job \<Rightarrow> int" where
  "elapsed now j = now - (case startedAt j of None \<Rightarrow> 0 | Some s \<Rightarrow> s)"

definition handleJobSuccess :: "int \<Rightarrow> job \<Rightarrow> job" where
  "handleJobSuccess now j =
     (let j1 = j\<lparr>status := Completed, lastRun := Some now, retryCount := 0,
                 executionTime := Some (elapsed now j)\<rparr>
      in if \<not> isOneShot j1
         then j1\<lparr>nextRun := calculateNextRun now (jobSchedule j1), status := Scheduled\<rparr>
         else j1)"

definition handleJobError :: "int \<Rightarrow> job \<Rightarrow> js_error \<Rightarrow> scheduler \<Rightarrow> job \<times> scheduler" where
  "handleJobError now j error st =
     (let j1 = j\<lparr>status := Failed, lastError := Some (message error),
                 retryCount := retryCount j + 1, executionTime := Some (elapsed now j)\<rparr>
      in if retryCount j1 < maxRetries (options j1)
         then (j1\<lparr>nextRun := now + retryCount j1 * 30000, status := Scheduled\<rparr>, st)
         else (j1, st\<lparr>schedulerLog := schedulerLog st @
                        [(''system'', ''job_failed_max_retries'', jobId j1)]\<rparr>))"

definition timeoutMessage :: "job \<Rightarrow> string" where
  "timeoutMessage j = ''Job timed out after '' @ show_int (timeout (options j)) @ ''ms''"

definition handleJobTimeout :: "int \<Rightarrow> job \<Rightarrow> scheduler \<Rightarrow> job \<times> scheduler" where
  "handleJobTimeout now j st =
     (let j1 = j\<lparr>status := Timeout, lastError := Some (timeoutMessage j),
                 retryCount := retryCount j + 1, executionTime := Some (elapsed now j)\<rparr>
      in if retryCount j1 < maxRetries (options j1)
         then (j1\<lparr>nextRun := now + retryCount j1 * 60000, status := Scheduled\<rparr>, st)
         else (j1, st\<lparr>schedulerLog := schedulerLog st @
                        [(''system'', ''job_timeout_max_retries'', jobId j1)]\<rparr>))"

definition removeJob :: "string \<Rightarrow> scheduler \<Rightarrow> scheduler" where
  "removeJob jid st =
     st\<lparr>jobs := AList.delete jid (jobs st), currentlyRunning := currentlyRunning st - {jid}\<rparr>"

text \<open>
  One run of a job: \<^verbatim>\<open>Promise.race([job.function(), timeoutPromise])\<close> either
  resolves, rejects with what the function threw, or rejects with the timer's error.
\<close>

datatype job_outcome = Returns | Throws js_error | TimerFires

definition raceError :: "job \<Rightarrow> job_outcome \<Rightarrow> js_error option" where
  "raceError j outcome =
     (case outcome of
        Returns \<Rightarrow> None
      | Throws e \<Rightarrow> Some e
      | TimerFires \<Rightarrow> Some (Error (timeoutMessage j)))"

text \<open>
  \<^verbatim>\<open>executeJob(job)\<close> mutates the job object it is given, which is the table's own
  entry (\<^verbatim>\<open>getReadyJobs\<close> returns the values of the table): the model writes the
  mutated job back under its id. \<open>started\<close> is the clock when the run starts and \<open>now\<close>
  the clock when its outcome is handled. A thrown \<^verbatim>\<open>undefined\<close> has no
  \<^verbatim>\<open>message\<close>: the \<^verbatim>\<open>catch\<close> block itself throws and only \<^verbatim>\<open>finally\<close> runs.
\<close>

definition executeJob :: "int \<Rightarrow> int \<Rightarrow> job \<Rightarrow> job_outcome \<Rightarrow> scheduler \<Rightarrow> scheduler" where
  "executeJob started now j outcome st =
     (let st1 = st\<lparr>currentlyRunning := insert (jobId j) (currentlyRunning st)\<rparr>;
          j1 = j\<lparr>status := Running, startedAt := Some started, lastError := None\<rparr>;
          (j2, st2) =
            (case raceError j1 outcome of
               None \<Rightarrow> (handleJobSuccess now j1, st1)
             | Some ThrownUndefined \<Rightarrow> (j1, st1)
             | Some error \<Rightarrow>
                 if js_includes (message error) ''Job timed out''
                 then handleJobTimeout now j1 st1
                 else handleJobError now j1 error st1);
          st3 = st2\<lparr>jobs := AList.update (jobId j2) j2 (jobs st2),
                    currentlyRunning := currentlyRunning st2 - {jobId j2}\<rparr>
      in if isOneShot j2 \<and>
            (status j2 = Completed \<or>
             (status j2 = Failed \<and> retryCount j2 \<ge> maxRetries (options j2)))
         then removeJob (jobId j2) st3
         else st3)"

text \<open>
  One tick that finds the job \<open>jid\<close> ready and runs it to its outcome:
  \<^verbatim>\<open>processJobQueue\<close> takes the job from \<^verbatim>\<open>getReadyJobs()\<close> and calls
  \<^verbatim>\<open>executeJob\<close> on it. A job that is not ready at \<open>started\<close> is not run.
\<close>

definition tickRuns :: "int \<Rightarrow> int \<Rightarrow> string \<Rightarrow> job_outcome \<Rightarrow> scheduler \<Rightarrow> scheduler" where
  "tickRuns started now jid outcome st =
     (case find (\<lambda>j. jobId j = jid) (getReadyJobs started st) of
        None \<Rightarrow> st
      | Some j \<Rightarrow> executeJob started now j outcome st)"

section \<open>Circuit breaker: \<open>CircuitBreakerErrorHandler\<close>\<close>

datatype breaker_state = CLOSED | OPEN | HALF_OPEN

record breaker =
  state :: breaker_state
  failures :: int
  resetTime :: int

record error_pattern =
  patternMessage :: string
  patternTimestamp :: int

text \<open>
  The two static maps, with the clock of the run in progress. \<open>invocations\<close> counts
  the calls of the wrapped operation: an observation, not a field of the source.
  \<open>breakerLog\<close> and \<open>breakerAlerts\<close> record the calls to the audit log and to
  the notification service, both outside this module.
\<close>

record breaker_table =
  circuitBreakers :: "string \<rightharpoonup> breaker"
  errorPatterns :: "string \<rightharpoonup> error_pattern list"
  clock :: int
  invocations :: nat
  breakerLog :: "critical_action list"
  breakerAlerts :: "string list"

definition initialBreakers :: breaker_table where
  "initialBreakers =
     \<lparr>circuitBreakers = Map.empty, errorPatterns = Map.empty, clock = 0, invocations = 0,
      breakerLog = [], breakerAlerts = []\<rparr>"

record breaker_options =
  maxFailures :: int
  resetTimeoutMs :: int
  retryAttempts :: nat
  retryDelayMs :: nat

definition defaultOptions :: breaker_options where
  "defaultOptions =
     \<lparr>maxFailures = 5, resetTimeoutMs = 30000, retryAttempts = 3, retryDelayMs = 1000\<rparr>"

definition isCircuitOpen :: "string \<Rightarrow> breaker_table \<Rightarrow> bool \<times> breaker_table" where
  "isCircuitOpen breakerKey st =
     (case circuitBreakers st breakerKey of
        None \<Rightarrow> (False, st)
      | Some b \<Rightarrow>
          if state b = OPEN then
            if clock st > resetTime b
            then (False, st\<lparr>circuitBreakers :=
                              (circuitBreakers st)(breakerKey \<mapsto> b\<lparr>state := HALF_OPEN\<rparr>)\<rparr>)
            else (True, st)
          else (False, st))"

definition recordSuccess :: "string \<Rightarrow> breaker_table \<Rightarrow> breaker_table" where
  "recordSuccess breakerKey st =
     (case circuitBreakers st breakerKey of
        None \<Rightarrow> st
      | Some b \<Rightarrow>
          if state b = HALF_OPEN
          then st\<lparr>circuitBreakers := (circuitBreakers st)(breakerKey \<mapsto>
                     b\<lparr>state := CLOSED, failures := 0, resetTime := 0\<rparr>)\<rparr>
          else if state b = CLOSED
          then st\<lparr>circuitBreakers := (circuitBreakers st)(breakerKey \<mapsto> b\<lparr>failures := 0\<rparr>)\<rparr>
          else st)"

definition recordErrorPattern :: "string \<Rightarrow> js_error \<Rightarrow> breaker_table \<Rightarrow> breaker_table" where
  "recordErrorPattern breakerKey error st =
     (let patterns = (case errorPatterns st breakerKey of None \<Rightarrow> [] | Some ps \<Rightarrow> ps) @
                       [\<lparr>patternMessage = message error, patternTimestamp = clock st\<rparr>];
          patterns' = (if length patterns > 50 then drop (length patterns - 25) patterns
                       else patterns)
      in st\<lparr>errorPatterns := (errorPatterns st)(breakerKey \<mapsto> patterns')\<rparr>)"

definition recordFailure ::
  "string \<Rightarrow> js_error \<Rightarrow> int \<Rightarrow> int \<Rightarrow> breaker_table \<Rightarrow> breaker_table" where
  "recordFailure breakerKey error maxFails resetMs st =
     (let b = (case circuitBreakers st breakerKey of
                 None \<Rightarrow> \<lparr>state = CLOSED, failures = 0, resetTime = 0\<rparr>
               | Some b \<Rightarrow> b);
          st0 = st\<lparr>circuitBreakers := (circuitBreakers st)(breakerKey \<mapsto> b)\<rparr>
      in if state b = CLOSED \<or> state b = HALF_OPEN then
           let b1 = b\<lparr>failures := failures b + 1\<rparr>;
               st1 = recordErrorPattern breakerKey error st0
           in if failures b1 \<ge> maxFails \<and> state b1 = CLOSED then
                st1\<lparr>circuitBreakers := (circuitBreakers st1)(breakerKey \<mapsto>
                       b1\<lparr>state := OPEN, resetTime := clock st1 + resetMs\<rparr>),
                    breakerLog := breakerLog st1 @
                       [(''system'', ''circuit_breaker_opened'', breakerKey)],
                    breakerAlerts := breakerAlerts st1 @ [breakerKey]\<rparr>
              else if state b1 = HALF_OPEN then
                st1\<lparr>circuitBreakers := (circuitBreakers st1)(breakerKey \<mapsto>
                       b1\<lparr>state := OPEN, resetTime := clock st1 + resetMs\<rparr>)\<rparr>
              else st1\<lparr>circuitBreakers := (circuitBreakers st1)(breakerKey \<mapsto> b1)\<rparr>
         else st0)"

definition delay :: "nat \<Rightarrow> breaker_table \<Rightarrow> breaker_table" where
  "delay ms st = st\<lparr>clock := clock st + int ms\<rparr>"

text \<open>
  The wrapped operation is an effectful \<^verbatim>\<open>async\<close> function: the model is given, for
  each attempt of a run (counted from 1), what the call does and how long it takes.
\<close>

type_synonym 'a operation = "nat \<Rightarrow> (js_error + 'a) \<times> nat"

text \<open>
  \<^verbatim>\<open>PerformanceMonitor.trackFunction(functionName, executionFunction)\<close> of
  \<^verbatim>\<open>027-performance-monitor.js\<close> awaits the operation inside a \<^verbatim>\<open>try\<close>. A result
  is returned as it is. The \<^verbatim>\<open>catch\<close> block reads \<^verbatim>\<open>error.message\<close> for the metric
  before \<^verbatim>\<open>throw error\<close>: on a thrown \<^verbatim>\<open>undefined\<close> that read is itself a
  \<^verbatim>\<open>TypeError\<close>, which is what the caller receives; any error object is rethrown
  unchanged. The metrics and alerts the monitor keeps are its own static state and its
  Firestore writes, neither read by the breaker; they are not part of this model.
\<close>

definition trackFunction :: "js_error + 'a \<Rightarrow> js_error + 'a" where
  "trackFunction outcome =
     (case outcome of
        Inr result \<Rightarrow> Inr result
      | Inl ThrownUndefined \<Rightarrow>
          Inl (TypeError ''Cannot read properties of undefined (reading message)'')
      | Inl error \<Rightarrow> Inl error)"

definition invoked :: "'a operation \<Rightarrow> nat \<Rightarrow> breaker_table \<Rightarrow> breaker_table" where
  "invoked operation attempt st =
     st\<lparr>clock := clock st + int (snd (operation attempt)), invocations := invocations st + 1\<rparr>"

text \<open>The \<^verbatim>\<open>catch\<close> block of one attempt.\<close>

definition failedAttempt ::
  "breaker_options \<Rightarrow> string \<Rightarrow> nat \<Rightarrow> js_error \<Rightarrow> breaker_table \<Rightarrow> breaker_table" where
  "failedAttempt opts breakerKey attempt error st =
     (let st1 = recordFailure breakerKey error (maxFailures opts) (resetTimeoutMs opts) st
      in if attempt < retryAttempts opts then delay (retryDelayMs opts * attempt) st1 else st1)"

text \<open>
  \<^verbatim>\<open>for (let attempt = 1; attempt <= retryAttempts; attempt++)\<close>, each attempt a
  call of the operation through \<^verbatim>\<open>trackFunction\<close>: the result is the returned value,
  or \<^verbatim>\<open>lastError\<close> (here \<open>lastThrown\<close>) when the loop runs out.
\<close>

function attemptLoop ::
  "breaker_options \<Rightarrow> string \<Rightarrow> 'a operation \<Rightarrow> nat \<Rightarrow> js_error option \<Rightarrow> breaker_table \<Rightarrow>
     (js_error option + 'a) \<times> breaker_table" where
  "attemptLoop opts breakerKey operation attempt lastThrown st =
     (if attempt \<le> retryAttempts opts then
        (case trackFunction (fst (operation attempt)) of
           Inr result \<Rightarrow> (Inr result, recordSuccess breakerKey (invoked operation attempt st))
         | Inl error \<Rightarrow>
             attemptLoop opts breakerKey operation (attempt + 1) (Some error)
               (failedAttempt opts breakerKey attempt error (invoked operation attempt st)))
      else (Inl lastThrown, st))"
  by pat_completeness auto
termination
  by (relation "measure (\<lambda>(opts, breakerKey, operation, attempt, lastThrown, st).
                           retryAttempts opts + 1 - attempt)") auto

declare attemptLoop.simps [simp del]

definition circuitOpenError :: "string \<Rightarrow> js_error" where
  "circuitOpenError operationName =
     Error (''Circuit breaker is OPEN for '' @ operationName @ ''. Too many recent failures.'')"

text \<open>
  \<^verbatim>\<open>handleAsyncWithCircuitBreaker(operation, operationName, identifier, options)\<close>,
  entered when the clock reads \<open>now\<close>.
\<close>

definition handleAsyncWithCircuitBreaker ::
  "int \<Rightarrow> 'a operation \<Rightarrow> string \<Rightarrow> string \<Rightarrow> breaker_options \<Rightarrow> breaker_table \<Rightarrow>
     (js_error + 'a) \<times> breaker_table" where
  "handleAsyncWithCircuitBreaker now operation operationName ident opts st =
     (let breakerKey = operationName @ ''_'' @ ident;
          (isOpen, st1) = isCircuitOpen breakerKey (st\<lparr>clock := now\<rparr>)
      in if isOpen then (Inl (circuitOpenError operationName), st1)
         else
           (case attemptLoop opts breakerKey operation 1 None st1 of
              (Inr result, st2) \<Rightarrow> (Inr result, st2)
            | (Inl lastThrown, st2) \<Rightarrow>
                (Inl (case lastThrown of None \<Rightarrow> ThrownUndefined | Some e \<Rightarrow> e),
                 st2\<lparr>breakerLog := breakerLog st2 @
                        [(''system'', ''operation_failed_all_retries'', operationName)]\<rparr>)))"

section \<open>Threat meter: \<open>EnhancedSecurityMonitoring\<close>\<close>

text \<open>
  The flags of \<^verbatim>\<open>contextData\<close> that the analyses read (a flag that is absent is
  falsy).
\<close>

record context_data =
  multipleDevices :: bool
  rapidLocationChanges :: bool
  unusualUserAgent :: bool
  excessiveFailedLogins :: bool
  clientIP :: string
  vpnDetected :: bool
  torDetected :: bool
  automatedBehaviorDetected :: bool
  unusualTransactionPattern :: bool

text \<open>A document of the collection \<^verbatim>\<open>user_behavior_patterns\<close>.\<close>

record behavior_patterns =
  activities :: "string \<rightharpoonup> nat"
  activeHours :: "nat list"

text \<open>
  What the analyses read from outside the class: the clock and the local hour, the set
  \<^verbatim>\<open>AdvancedSecurityManager.suspiciousIPs\<close>, the collection \<^verbatim>\<open>malicious_ips\<close>
  and the read of the user's behaviour document (which may fail).
\<close>

record threat_env =
  timeNow :: int
  hourNow :: nat
  suspiciousIPs :: "string set"
  maliciousIPs :: "string set"
  readBehavior :: "string \<Rightarrow> js_error + behavior_patterns option"

record security_metrics =
  totalThreats :: nat
  blockedAttempts :: nat
  fraudScoreTotal :: real
  lastThreatDetected :: "int option"
  highThreats :: nat
  mediumThreats :: nat
  lowThreats :: nat

text \<open>
  The fields written by \<^verbatim>\<open>_firestore.collection('users').doc(userId).update(...)\<close>
  and a document added to \<^verbatim>\<open>security_incidents\<close>. The collections are kept as the
  sequence of writes issued to them.
\<close>

record user_update =
  securityFlag :: string
  threatScore :: real
  lastThreatActivity :: string
  suspended :: bool

record security_incident =
  incidentUserId :: string
  incidentActivity :: string
  incidentThreatScore :: real
  severity :: string
  autoActions :: "string list"
  requiresReview :: bool

record security_state =
  suspiciousPatterns :: "string \<rightharpoonup> (string \<times> int) list"
  securityMetrics :: security_metrics
  userUpdates :: "(string \<times> user_update) list"
  security_incidents :: "security_incident list"
  securityLog :: "critical_action list"
  securityAlerts :: "(string \<times> string list) list"

definition initialSecurity :: security_state where
  "initialSecurity =
     \<lparr>suspiciousPatterns = Map.empty,
      securityMetrics = \<lparr>totalThreats = 0, blockedAttempts = 0, fraudScoreTotal = 0,
                         lastThreatDetected = None, highThreats = 0, mediumThreats = 0,
                         lowThreats = 0\<rparr>,
      userUpdates = [], security_incidents = [], securityLog = [], securityAlerts = []\<rparr>"

definition addActivityToPattern ::
  "threat_env \<Rightarrow> string \<Rightarrow> string \<Rightarrow> security_state \<Rightarrow> security_state" where
  "addActivityToPattern env userId activity st =
     (let userActivities =
            (case suspiciousPatterns st userId of None \<Rightarrow> [] | Some acts \<Rightarrow> acts) @
              [(activity, timeNow env)];
          userActivities' =
            (if length userActivities > 200
             then drop (length userActivities - 100) userActivities else userActivities)
      in st\<lparr>suspiciousPatterns := (suspiciousPatterns st)(userId \<mapsto> userActivities')\<rparr>)"

definition analyzeSessionBehavior :: "context_data \<Rightarrow> real" where
  "analyzeSessionBehavior contextData =
     (if multipleDevices contextData then 20 else 0) +
     (if rapidLocationChanges contextData then 30 else 0) +
     (if unusualUserAgent contextData then 15 else 0) +
     (if excessiveFailedLogins contextData then 25 else 0)"

definition analyzeNetworkPatterns :: "threat_env \<Rightarrow> context_data \<Rightarrow> real" where
  "analyzeNetworkPatterns env contextData =
     (if clientIP contextData \<in> suspiciousIPs env then 40 else 0) +
     (if clientIP contextData \<in> maliciousIPs env then 60 else 0) +
     (if vpnDetected contextData then 10 else 0) +
     (if torDetected contextData then 35 else 0)"

definition hasRapidActionPattern ::
  "threat_env \<Rightarrow> string \<Rightarrow> string \<Rightarrow> security_state \<Rightarrow> bool" where
  "hasRapidActionPattern env userId activity st =
     (case suspiciousPatterns st userId of
        None \<Rightarrow> False
      | Some pattern \<Rightarrow>
          if length pattern < 5 then False
          else
            let oneMinuteAgo = timeNow env - 60000;
                recentSpecificActions =
                  filter (\<lambda>entry. fst entry = activity \<and> snd entry > oneMinuteAgo) pattern;
                recentTotalActions = filter (\<lambda>entry. snd entry > oneMinuteAgo) pattern
            in if length recentSpecificActions > 5 then True
               else if length recentTotalActions > 15 then True
               else False)"

definition analyzeTemporalPatterns ::
  "threat_env \<Rightarrow> string \<Rightarrow> string \<Rightarrow> security_state \<Rightarrow> real" where
  "analyzeTemporalPatterns env userId activity st =
     (if hourNow env \<ge> 0 \<and> hourNow env \<le> 5 then 15 else 0) +
     (if hasRapidActionPattern env userId activity st then 25 else 0)"

text \<open>\<^verbatim>\<open>AIFraudDetection.checkBehaviorPatterns\<close>: a failed read scores 0.\<close>

definition checkBehaviorPatterns :: "threat_env \<Rightarrow> string \<Rightarrow> string \<Rightarrow> real" where
  "checkBehaviorPatterns env userId activity =
     (case readBehavior env userId of
        Inl e \<Rightarrow> 0
      | Inr None \<Rightarrow> 10
      | Inr (Some patterns) \<Rightarrow>
          (let typicalActivityFreq =
                 (case activities patterns activity of None \<Rightarrow> 0 | Some f \<Rightarrow> f)
           in if typicalActivityFreq = 0 \<and> activity = ''high_value_order'' then 25 else 0) +
          (if hourNow env \<notin> set (activeHours patterns) then 15 else 0))"

definition analyzeBehaviorAnomalies :: "threat_env \<Rightarrow> string \<Rightarrow> string \<Rightarrow> context_data \<Rightarrow> real" where
  "analyzeBehaviorAnomalies env userId activity contextData =
     checkBehaviorPatterns env userId activity * 0.8 +
     (if automatedBehaviorDetected contextData then 40 else 0) +
     (if unusualTransactionPattern contextData then 30 else 0)"

definition calculateThreatScore ::
  "threat_env \<Rightarrow> string \<Rightarrow> string \<Rightarrow> context_data \<Rightarrow> security_state \<Rightarrow> real \<times> security_state"
where
  "calculateThreatScore env userId activity contextData st =
     (let score = analyzeSessionBehavior contextData +
                  analyzeNetworkPatterns env contextData +
                  analyzeTemporalPatterns env userId activity st +
                  analyzeBehaviorAnomalies env userId activity contextData
      in (min score 100,
          st\<lparr>securityLog := securityLog st @ [(userId, ''threat_score_calculated'', activity)]\<rparr>))"

definition handleHighThreatActivity ::
  "string \<Rightarrow> string \<Rightarrow> real \<Rightarrow> security_state \<Rightarrow> security_state" where
  "handleHighThreatActivity userId activity score st =
     st\<lparr>userUpdates := userUpdates st @
            [(userId, \<lparr>securityFlag = ''HIGH_THREAT'', threatScore = score,
                       lastThreatActivity = activity, suspended = (score > 95)\<rparr>)],
        security_incidents := security_incidents st @
            [\<lparr>incidentUserId = userId, incidentActivity = activity,
              incidentThreatScore = score, severity = ''HIGH'',
              autoActions = [''account_flagged'', ''admin_notified''] @
                            (if score > 95 then [''account_suspended''] else []),
              requiresReview = False\<rparr>],
        securityLog := securityLog st @ [(userId, ''high_threat_detected'', activity)],
        securityAlerts := securityAlerts st @ [(''critical'', [''email'', ''slack''])]\<rparr>"

definition handleMediumThreatActivity ::
  "string \<Rightarrow> string \<Rightarrow> real \<Rightarrow> security_state \<Rightarrow> security_state" where
  "handleMediumThreatActivity userId activity score st =
     st\<lparr>security_incidents := security_incidents st @
            [\<lparr>incidentUserId = userId, incidentActivity = activity,
              incidentThreatScore = score, severity = ''MEDIUM'', autoActions = [],
              requiresReview = True\<rparr>],
        securityLog := securityLog st @ [(userId, ''medium_threat_detected'', activity)],
        securityAlerts := securityAlerts st @ [(''urgent'', [''email'', ''slack''])]\<rparr>"

definition updateSecurityMetrics :: "threat_env \<Rightarrow> real \<Rightarrow> security_state \<Rightarrow> security_state" where
  "updateSecurityMetrics env score st =
     (let m = securityMetrics st;
          m1 = m\<lparr>totalThreats := totalThreats m + 1, fraudScoreTotal := fraudScoreTotal m + score\<rparr>;
          m2 = (if score \<ge> 50
                then m1\<lparr>blockedAttempts := blockedAttempts m1 + 1,
                        lastThreatDetected := Some (timeNow env)\<rparr>
                else m1)
      in st\<lparr>securityMetrics := m2\<rparr>)"

definition bumpMetrics :: "(security_metrics \<Rightarrow> security_metrics) \<Rightarrow> security_state \<Rightarrow> security_state" where
  "bumpMetrics f st = st\<lparr>securityMetrics := f (securityMetrics st)\<rparr>"

definition detectAdvancedThreats ::
  "threat_env \<Rightarrow> string \<Rightarrow> string \<Rightarrow> context_data \<Rightarrow> security_state \<Rightarrow> real \<times> security_state"
where
  "detectAdvancedThreats env userId activity contextData st =
     (let st1 = addActivityToPattern env userId activity st;
          (score, st2) = calculateThreatScore env userId activity contextData st1;
          st3 = (if score \<ge> 75 then
                   bumpMetrics (\<lambda>m. m\<lparr>highThreats := highThreats m + 1\<rparr>)
                     (handleHighThreatActivity userId activity score st2)
                 else if score \<ge> 50 then
                   bumpMetrics (\<lambda>m. m\<lparr>mediumThreats := mediumThreats m + 1\<rparr>)
                     (handleMediumThreatActivity userId activity score st2)
                 else if score \<ge> 30 then
                   bumpMetrics (\<lambda>m. m\<lparr>lowThreats := lowThreats m + 1\<rparr>) st2
                 else st2)
      in (score, updateSecurityMetrics env score st3))"

section \<open>JavaScript numbers in the driver search\<close>

text \<open>
  A JavaScript number is an IEEE 754 binary64 value. The finite ones are reals: a
  significand of at most 53 bits times a power of two, the exponent of the leading bit
  between \<open>-1022\<close> and \<open>1023\<close>. Each of \<^verbatim>\<open>+\<close>, \<^verbatim>\<open>-\<close>, \<^verbatim>\<open>*\<close>, \<^verbatim>\<open>/\<close>,
  \<^verbatim>\<open>Math.sqrt\<close> and the reading of a decimal literal returns the exact result rounded
  to the nearest such value, ties to the even significand: \<open>double\<close> is that rounding.
  \<open>binade x\<close> is the exponent of the leading bit of \<open>x\<close>, and \<open>-1022\<close> below the normal
  range. \<^verbatim>\<open>NaN\<close> and the infinities are no reals: where the source can produce one the
  model says so at that place.
\<close>

definition binade :: "real \<Rightarrow> int" where
  "binade x =
     (case find (\<lambda>e. \<bar>x\<bar> < 2 powi (e + 1)) [- 1022 .. 1023] of
        Some e \<Rightarrow> e
      | None \<Rightarrow> 1024)"

definition roundTiesToEven :: "real \<Rightarrow> int" where
  "roundTiesToEven x =
     (let n = \<lfloor>x\<rfloor>
      in if x - of_int n < 1 / 2 then n
         else if x - of_int n > 1 / 2 then n + 1
         else if even n then n else n + 1)"

definition double :: "real \<Rightarrow> real" where
  "double x =
     (let ulp = 2 powi (binade x - 52)
      in of_int (roundTiesToEven (x / ulp)) * ulp)"

text \<open>\<^verbatim>\<open>Math.PI\<close>, the double nearest to \<open>\<pi>\<close>: 3.141592653589793.\<close>

definition Math_PI :: real where
  "Math_PI = 884279719003555 / 2 ^ 48"

text \<open>
  \<^verbatim>\<open>Math.cos\<close>, \<^verbatim>\<open>Math.sin\<close> and \<^verbatim>\<open>Math.atan2\<close> return an approximation that the
  language leaves to the engine. They are parameters of the model: whatever is proved
  holds for every engine.
\<close>

record libm =
  Math_cos :: "real \<Rightarrow> real"
  Math_sin :: "real \<Rightarrow> real"
  Math_atan2 :: "real \<Rightarrow> real \<Rightarrow> real"

text \<open>\<^verbatim>\<open>Math.sqrt\<close> is correctly rounded, and \<^verbatim>\<open>NaN\<close> (\<open>None\<close>) below zero.\<close>

definition Math_sqrt :: "real \<Rightarrow> real option" where
  "Math_sqrt x = (if x < 0 then None else Some (double (sqrt x)))"

text \<open>
  \<^verbatim>\<open>x.toFixed(6)\<close> prints the sign and the digits of the multiple of \<open>10\<^sup>-\<^sup>6\<close> nearest
  to \<open>\<bar>x\<bar>\<close>, the larger one at a tie. The model keeps what the string shows: whether
  it starts with a minus sign, and the number of millionths.
\<close>

type_synonym fixed6 = "bool \<times> nat"

definition toFixed6 :: "real \<Rightarrow> fixed6" where
  "toFixed6 x = (x < 0, nat \<lfloor>\<bar>x\<bar> * 10 ^ 6 + 1 / 2\<rfloor>)"

section \<open>Spatial index: \<open>OptimizedDriverSearch\<close>\<close>

text \<open>
  Coordinates, distances and the radius are doubles. \<^verbatim>\<open>lastSeenOnline\<close> is a
  Firestore timestamp, read with \<^verbatim>\<open>toMillis()\<close>. The fields of a driver that the
  search does not read are left out.
\<close>

record location =
  latitude :: real
  longitude :: real

record driver =
  driverId :: string
  location :: "location option"
  active :: bool
  isActive :: bool
  lastSeenOnline :: "int option"

text \<open>
  \<^verbatim>\<open>distanceRadius\<close> of \<^verbatim>\<open>003-utilities-helpers.js\<close>, every operation rounded in
  the order JavaScript evaluates it. The result is \<^verbatim>\<open>NaN\<close> (\<open>None\<close>) when one of the
  square roots is taken below zero.
\<close>

definition distanceRadius :: "libm \<Rightarrow> real \<Rightarrow> real \<Rightarrow> real \<Rightarrow> real \<Rightarrow> real option" where
  "distanceRadius m lat1 lon1 lat2 lon2 =
     (let R = double 3958.8;
          dLat = double (double (double (lat2 - lat1) * Math_PI) / 180);
          dLon = double (double (double (lon2 - lon1) * Math_PI) / 180);
          a = double
                (double (Math_sin m (double (dLat / 2)) * Math_sin m (double (dLat / 2))) +
                 double (double (double (Math_cos m (double (double (lat1 * Math_PI) / 180)) *
                                         Math_cos m (double (double (lat2 * Math_PI) / 180))) *
                                 Math_sin m (double (dLon / 2))) *
                         Math_sin m (double (dLon / 2))))
      in case (Math_sqrt a, Math_sqrt (double (1 - a))) of
           (Some y, Some x) \<Rightarrow> Some (double (R * double (2 * Math_atan2 m y x)))
         | _ \<Rightarrow> None)"

text \<open>\<^verbatim>\<open>static gridSize = 0.01\<close>: the double that the literal denotes.\<close>

definition gridSize :: real where
  "gridSize = double 0.01"

text \<open>
  \<^verbatim>\<open>getGridKey\<close>: the key is the string
  \<^verbatim>\<open>`${gridLat.toFixed(6)}_${gridLng.toFixed(6)}`\<close>, here the pair of its two parts.
\<close>

type_synonym grid_key = "fixed6 \<times> fixed6"

definition getGridKey :: "real \<Rightarrow> real \<Rightarrow> grid_key" where
  "getGridKey lat lon =
     (let gridLat = double (of_int \<lfloor>double (lat / gridSize)\<rfloor> * gridSize);
          gridLng = double (of_int \<lfloor>double (lon / gridSize)\<rfloor> * gridSize)
      in (toFixed6 gridLat, toFixed6 gridLng))"

text \<open>The spatial index is a \<^verbatim>\<open>Map\<close> from grid key to the cell's drivers.\<close>

type_synonym spatial_index = "(grid_key \<times> driver list) list"

text \<open>\<^verbatim>\<open>this.spatialIndex.get(key) || []\<close>\<close>

definition cell :: "spatial_index \<Rightarrow> grid_key \<Rightarrow> driver list" where
  "cell idx key = (case map_of idx key of None \<Rightarrow> [] | Some ds \<Rightarrow> ds)"

text \<open>
  \<^verbatim>\<open>driver.location?.latitude && driver.location?.longitude\<close>: both present and
  truthy, that is, not zero.
\<close>

definition hasPosition :: "driver \<Rightarrow> bool" where
  "hasPosition d =
     (case location d of None \<Rightarrow> False | Some l \<Rightarrow> latitude l \<noteq> 0 \<and> longitude l \<noteq> 0)"

definition driverKey :: "driver \<Rightarrow> grid_key" where
  "driverKey d =
     (case location d of None \<Rightarrow> getGridKey 0 0 | Some l \<Rightarrow> getGridKey (latitude l) (longitude l))"

text \<open>
  \<^verbatim>\<open>driver.active && driver.isActive && driver.lastSeenOnline &&
  (now - driver.lastSeenOnline.toMillis()) < (10 * 60 * 1000)\<close>; the clean-up tests
  \<^verbatim>\<open>lastSeenOnline.toMillis() > Date.now() - 10 * 60 * 1000\<close>, the same condition.
\<close>

definition seenRecently :: "int \<Rightarrow> driver \<Rightarrow> bool" where
  "seenRecently now d =
     (active d \<and> isActive d \<and>
      (case lastSeenOnline d of None \<Rightarrow> False | Some seen \<Rightarrow> now - seen < 10 * 60 * 1000))"

text \<open>
  \<^verbatim>\<open>findIndex\<close> by id, then replace in place or \<^verbatim>\<open>push\<close>.
\<close>

fun upsertDriver :: "driver \<Rightarrow> driver list \<Rightarrow> driver list" where
  "upsertDriver d [] = [d]"
| "upsertDriver d (x # xs) =
     (if driverId x = driverId d then d # xs else x # upsertDriver d xs)"

text \<open>The body of \<^verbatim>\<open>drivers.forEach\<close> in \<^verbatim>\<open>updateSpatialIndex\<close>.\<close>

definition indexDriver :: "int \<Rightarrow> spatial_index \<Rightarrow> driver \<Rightarrow> spatial_index" where
  "indexDriver now idx d =
     (if hasPosition d then
        let gridKey = driverKey d;
            idx1 = (if map_of idx gridKey = None then AList.update gridKey [] idx else idx)
        in if seenRecently now d
           then AList.update gridKey (upsertDriver d (cell idx1 gridKey)) idx1
           else idx1
      else idx)"

definition cleanupOldIndexEntries :: "int \<Rightarrow> spatial_index \<Rightarrow> spatial_index" where
  "cleanupOldIndexEntries now idx =
     foldl (\<lambda>m (key, drivers).
              let activeDrivers = filter (seenRecently now) drivers
              in if activeDrivers = [] then AList.delete key m
                 else AList.update key activeDrivers m)
       idx idx"

text \<open>
  \<^verbatim>\<open>updateSpatialIndex(drivers)\<close> builds a new index and cleans it; \<open>now\<close> is the
  clock at the start and \<open>now'\<close> the clock read by the clean-up.
\<close>

definition updateSpatialIndex :: "int \<Rightarrow> int \<Rightarrow> driver list \<Rightarrow> spatial_index" where
  "updateSpatialIndex now now' drivers =
     cleanupOldIndexEntries now' (foldl (indexDriver now) [] drivers)"

text \<open>
  \<^verbatim>\<open>for (let x = lo; x <= hi; x += this.gridSize)\<close>: the values the loop variable
  takes, each the rounded sum of the one before and the grid size. Where the sum rounds
  back to \<open>x\<close> the loop never ends, and there is no list (\<open>None\<close>).
\<close>

partial_function (option) stepsFrom :: "real \<Rightarrow> real \<Rightarrow> real list option" where
  "stepsFrom x hi =
     (if x \<le> hi
      then Option.bind (stepsFrom (double (x + gridSize)) hi) (\<lambda>rest. Some (x # rest))
      else Some [])"

text \<open>The elements of a \<^verbatim>\<open>Set\<close> in insertion order.\<close>

definition insertionOrder :: "'a list \<Rightarrow> 'a list" where
  "insertionOrder xs = rev (remdups (rev xs))"

text \<open>
  \<^verbatim>\<open>getNearbyGridKeys\<close>: the outer loop over the latitudes, and for each of them the
  same inner loop over the longitudes. With no latitude to visit the inner loop is never
  entered. Where \<^verbatim>\<open>milesPerDegreeLon\<close> is zero (read as \<open>+0\<close>) the division gives
  \<^verbatim>\<open>Infinity\<close> for a positive radius, and the inner loop, started at
  \<^verbatim>\<open>-Infinity\<close>, never ends; for a radius of zero it gives \<^verbatim>\<open>NaN\<close> and for a
  negative one \<^verbatim>\<open>-Infinity\<close>, and the test of the inner loop fails at once. \<open>None\<close>:
  the call does not return.
\<close>

definition getNearbyGridKeys :: "libm \<Rightarrow> real \<Rightarrow> real \<Rightarrow> real \<Rightarrow> grid_key list option" where
  "getNearbyGridKeys m lat lon radiusMiles =
     (let milesPerDegreeLat = 69;
          milesPerDegreeLon = double (69 * Math_cos m (double (double (lat * Math_PI) / 180)));
          latRangeDegrees = double (radiusMiles / milesPerDegreeLat);
          startLat = double (of_int \<lfloor>double (double (lat - latRangeDegrees) / gridSize)\<rfloor> * gridSize);
          endLat = double (of_int \<lceil>double (double (lat + latRangeDegrees) / gridSize)\<rceil> * gridSize)
      in case stepsFrom startLat endLat of
           None \<Rightarrow> None
         | Some lats \<Rightarrow>
             if lats = [] then Some []
             else if milesPerDegreeLon = 0 then (if radiusMiles > 0 then None else Some [])
             else
               let lonRangeDegrees = double (radiusMiles / milesPerDegreeLon);
                   startLng = double (of_int \<lfloor>double (double (lon - lonRangeDegrees) / gridSize)\<rfloor> * gridSize);
                   endLng = double (of_int \<lceil>double (double (lon + lonRangeDegrees) / gridSize)\<rceil> * gridSize)
               in case stepsFrom startLng endLng of
                    None \<Rightarrow> None
                  | Some lngs \<Rightarrow>
                      Some (insertionOrder
                              (concat (map (\<lambda>la. map (\<lambda>ln. getGridKey la ln) lngs) lats))))"

text \<open>
  The inner \<^verbatim>\<open>forEach\<close> of \<^verbatim>\<open>getDriversNearLocation\<close>: \<^verbatim>\<open>nearbyDrivers\<close> is a
  \<^verbatim>\<open>Map\<close> from driver id to the driver with its distance. Reading
  \<^verbatim>\<open>driver.location.latitude\<close> of a driver without a location throws a
  \<^verbatim>\<open>TypeError\<close>. A distance that is \<^verbatim>\<open>NaN\<close> fails the test
  \<^verbatim>\<open>distance <= radiusMiles\<close>.
\<close>

type_synonym nearby = "(string \<times> driver \<times> real) list"

fun visitDrivers ::
  "libm \<Rightarrow> real \<Rightarrow> real \<Rightarrow> real \<Rightarrow> nearby \<Rightarrow> driver list \<Rightarrow> js_error + nearby" where
  "visitDrivers m lat lon radiusMiles nearbyDrivers [] = Inr nearbyDrivers"
| "visitDrivers m lat lon radiusMiles nearbyDrivers (d # ds) =
     (case location d of
        None \<Rightarrow> Inl (TypeError ''Cannot read properties of undefined (reading latitude)'')
      | Some l \<Rightarrow>
          visitDrivers m lat lon radiusMiles
            (case distanceRadius m lat lon (latitude l) (longitude l) of
               None \<Rightarrow> nearbyDrivers
             | Some distance \<Rightarrow>
                 if distance \<le> radiusMiles
                 then AList.update (driverId d) (d, distance) nearbyDrivers
                 else nearbyDrivers)
            ds)"

text \<open>
  \<^verbatim>\<open>getDriversNearLocation\<close>: \<open>None\<close> when it does not return, else the thrown error
  or the drivers with their distances, sorted (the sort is stable).
\<close>

definition getDriversNearLocation ::
  "libm \<Rightarrow> spatial_index \<Rightarrow> real \<Rightarrow> real \<Rightarrow> real \<Rightarrow>
     (js_error + (driver \<times> real) list) option" where
  "getDriversNearLocation m idx lat lon radiusMiles =
     (case getNearbyGridKeys m lat lon radiusMiles of
        None \<Rightarrow> None
      | Some gridKeys \<Rightarrow>
          Some (case visitDrivers m lat lon radiusMiles [] (concat (map (cell idx) gridKeys)) of
                  Inl e \<Rightarrow> Inl e
                | Inr nearbyDrivers \<Rightarrow> Inr (sort_key snd (map snd nearbyDrivers))))"

subsection \<open>The cached driver lookup\<close>

record order_data =
  vendorID :: string
  vendor :: "location option"

record dispatch_metadata =
  zone_id :: "string option"
  currentRound :: "nat option"
  kDistanceRadiusForDispatchInMiles :: "real option"

text \<open>
  A driver as returned by the lookup: with its \<^verbatim>\<open>distance\<close> when it comes from the
  radius query, without when the drivers fetched are returned as they are.
\<close>

type_synonym found_driver = "driver \<times> real option"

record search_state =
  driverCache :: "found_driver list cache"
  spatialIndex :: spatial_index

text \<open>
  \<^verbatim>\<open>`optimized_drivers_${orderData.vendorID}_${dispatchMetadata.zone_id || 'default'}_${dispatchMetadata.currentRound || '1'}`\<close>
\<close>

definition cacheKeyOf :: "order_data \<Rightarrow> dispatch_metadata \<Rightarrow> string" where
  "cacheKeyOf orderData dispatchMetadata =
     ''optimized_drivers_'' @ vendorID orderData @ ''_'' @
     (case zone_id dispatchMetadata of
        None \<Rightarrow> ''default''
      | Some z \<Rightarrow> if z = [] then ''default'' else z) @ ''_'' @
     (case currentRound dispatchMetadata of
        None \<Rightarrow> ''1''
      | Some n \<Rightarrow> if n = 0 then ''1'' else show_nat n)"

text \<open>\<^verbatim>\<open>dispatchMetadata.kDistanceRadiusForDispatchInMiles || 50\<close>\<close>

definition radiusOf :: "dispatch_metadata \<Rightarrow> real" where
  "radiusOf dispatchMetadata =
     (case kDistanceRadiusForDispatchInMiles dispatchMetadata of
        None \<Rightarrow> 50
      | Some r \<Rightarrow> if r = 0 then 50 else r)"

definition withDistance :: "(driver \<times> real) list \<Rightarrow> found_driver list" where
  "withDistance r = map (\<lambda>(d, distance). (d, Some distance)) r"

definition withoutDistance :: "driver list \<Rightarrow> found_driver list" where
  "withoutDistance ds = map (\<lambda>d. (d, None)) ds"

text \<open>
  \<^verbatim>\<open>await getAvailableDrivers(orderId, orderData, dispatchMetadata)\<close> in
  \<^verbatim>\<open>fetchAndIndexDrivers\<close>. The module \<^verbatim>\<open>023-optimized-driver-search.js\<close> requires
  \<^verbatim>\<open>distanceRadius\<close> alone from the utilities and declares no
  \<^verbatim>\<open>getAvailableDrivers\<close>; the name is bound in other modules only, by \<^verbatim>\<open>const\<close>.
  Evaluating the identifier throws a \<^verbatim>\<open>ReferenceError\<close> before anything is called.
\<close>

definition callGetAvailableDrivers :: "js_error + driver list" where
  "callGetAvailableDrivers = Inl (ReferenceError ''getAvailableDrivers is not defined'')"

text \<open>
  \<^verbatim>\<open>fetchAndIndexDrivers\<close>: the drivers fetched, then \<^verbatim>\<open>updateSpatialIndex\<close> at the
  clock \<open>tIndex\<close>, its clean-up at \<open>tClean\<close>.
\<close>

definition fetchAndIndexDrivers ::
  "int \<Rightarrow> int \<Rightarrow> search_state \<Rightarrow> (js_error + driver list) \<times> search_state" where
  "fetchAndIndexDrivers tIndex tClean st =
     (case callGetAvailableDrivers of
        Inl e \<Rightarrow> (Inl e, st)
      | Inr drivers \<Rightarrow>
          (Inr drivers, st\<lparr>spatialIndex := updateSpatialIndex tIndex tClean drivers\<rparr>))"

text \<open>
  \<^verbatim>\<open>getAvailableDriversOptimized\<close>; the four instants are the clock at the cache
  read, at the index update, at its clean-up and at the cache write. \<open>afterCacheCheck\<close>
  is what follows the early return: \<^verbatim>\<open>fetchAndIndexDrivers\<close>, the radius query when
  the vendor has a truthy latitude and longitude, and
  \<^verbatim>\<open>CacheManager.set(cacheKey, relevantDrivers, 2)\<close>. \<open>None\<close> as result: the call
  does not return.
\<close>

definition getAvailableDriversOptimized ::
  "libm \<Rightarrow> int \<Rightarrow> int \<Rightarrow> int \<Rightarrow> int \<Rightarrow> order_data \<Rightarrow> dispatch_metadata \<Rightarrow>
     search_state \<Rightarrow> (js_error + found_driver list) option \<times> search_state" where
  "getAvailableDriversOptimized m tGet tIndex tClean tSet orderData dispatchMetadata st =
     (let cacheKey = cacheKeyOf orderData dispatchMetadata;
          afterCacheCheck =
            (case fetchAndIndexDrivers tIndex tClean st of
               (Inl e, st1) \<Rightarrow> (Some (Inl e), st1)
             | (Inr drivers, st1) \<Rightarrow>
                 let relevantDrivers =
                       (case vendor orderData of
                          None \<Rightarrow> Some (Inr (withoutDistance drivers))
                        | Some v \<Rightarrow>
                            if latitude v \<noteq> 0 \<and> longitude v \<noteq> 0 then
                              (case getDriversNearLocation m (spatialIndex st1)
                                      (latitude v) (longitude v) (radiusOf dispatchMetadata) of
                                 None \<Rightarrow> None
                               | Some (Inl e) \<Rightarrow> Some (Inl e)
                               | Some (Inr r) \<Rightarrow> Some (Inr (withDistance r)))
                            else Some (Inr (withoutDistance drivers)))
                 in case relevantDrivers of
                      None \<Rightarrow> (None, st1)
                    | Some (Inl e) \<Rightarrow> (Some (Inl e), st1)
                    | Some (Inr relevant) \<Rightarrow>
                        (Some (Inr relevant),
                         st1\<lparr>driverCache := CacheManager_set (driverCache st1) tSet
                                cacheKey relevant 2\<rparr>))
      in case CacheManager_get (driverCache st) tGet cacheKey of
           None \<Rightarrow> afterCacheCheck
         | Some cached \<Rightarrow>
             if length cached > 0 then (Some (Inr cached), st) else afterCacheCheck)"

chapter \<open>The dispatch core: properties\<close>

section \<open>Evaluation rules for the helpers\<close>

lemma show_nat_digit [simp]: "n < 10 \<Longrightarrow> show_nat n = [''0123456789'' ! n]"
  by (simp add: show_nat.simps)

lemma show_nat_step [simp]:
  "\<not> n < 10 \<Longrightarrow> show_nat n = show_nat (n div 10) @ [''0123456789'' ! (n mod 10)]"
  by (subst show_nat.simps) simp

lemma show_int_examples:
  "show_int 300000 = ''300000''" "show_int (- 42) = ''-42''" "show_int 0 = ''0''"
  by (simp_all add: show_int_def)

section \<open>Properties of the cache core\<close>

lemma get_after_set:
  "CacheManager_get (CacheManager_set c t0 k v m) now k =
     (if now - t0 < m * 60 * 1000 then Some v else None)"
  by (simp add: CacheManager_get_def CacheManager_set_def)

lemma sets_other_keys:
  "\<forall>call \<in> set later. fst (snd call) \<noteq> k \<Longrightarrow> CacheManager_sets c later k = c k"
  by (induction c later rule: CacheManager_sets.induct) (auto simp: CacheManager_set_def)

text \<open>
  C8, as stated: an entry stored at \<open>t0\<close> is returned whenever \<open>now - t0 \<le> ttl\<close>.
  The read guard is the strict \<^verbatim>\<open>(Date.now() - cached.timestamp) < cached.ttl\<close>, so
  at the instant \<open>now - t0 = ttl\<close> the entry is already expired: stored at 0 with a
  one-minute TTL, the key reads as \<^verbatim>\<open>null\<close> at 60000 ms.
\<close>

theorem cache_ttl_boundary_counterexample:
  "\<not> ((60000::int) - 0 \<le> 1 * 60 * 1000 \<longrightarrow>
       CacheManager_get (CacheManager_set Map.empty 0 ''k'' (7::nat) 1) 60000 ''k'' = Some 7)"
  by (simp add: CacheManager_get_def CacheManager_set_def)

text \<open>
  C8, amended: for a key \<open>k\<close> last stored by \<^verbatim>\<open>set(k, v, ttl)\<close> at \<open>t0\<close> (every later
  \<^verbatim>\<open>set\<close> is on another key), \<^verbatim>\<open>get(k)\<close> returns \<open>v\<close> exactly when
  \<open>now - t0 < ttl\<close> (in ms) and \<^verbatim>\<open>null\<close> when \<open>now - t0 \<ge> ttl\<close>; a key never stored
  reads as \<^verbatim>\<open>null\<close>. Expiry is decided at the read: neither \<^verbatim>\<open>get\<close> nor
  \<^verbatim>\<open>set\<close> evicts.
\<close>

theorem cache_get_last_set:
  assumes "\<forall>call \<in> set later. fst (snd call) \<noteq> k"
  shows "CacheManager_get (CacheManager_sets (CacheManager_set c t0 k v m) later) now k =
           (if now - t0 < m * 60 * 1000 then Some v else None) \<and>
         (c k = None \<longrightarrow> CacheManager_get (CacheManager_sets c later) now k = None)"
  using assms by (simp add: CacheManager_get_def sets_other_keys CacheManager_set_def)

theorem cache_get_last_set_witness:
  "CacheManager_get (CacheManager_sets (CacheManager_set Map.empty 0 ''k'' (7::nat) 1)
      [(5, ''other'', 9, 2)]) 59999 ''k'' = Some 7 \<and>
   CacheManager_get (CacheManager_sets (CacheManager_set Map.empty 0 ''k'' (7::nat) 1)
      [(5, ''other'', 9, 2)]) 60000 ''k'' = None \<and>
   CacheManager_get (CacheManager_sets Map.empty [(5, ''other'', 9::nat, 2)]) 60000 ''k'' = None"
  using cache_get_last_set [of "[(5, ''other'', 9::nat, 2::int)]" "''k''" Map.empty 0 7 1 59999]
        cache_get_last_set [of "[(5, ''other'', 9::nat, 2::int)]" "''k''" Map.empty 0 7 1 60000]
  by simp

section \<open>Properties of the adaptive cache\<close>

text \<open>
  C9: a key with 60 accesses inside the last hour, more than 10 hit-rate samples and a
  hit rate of 0.95 gets, for \<open>baseMinutes = 5\<close>, the multiplier \<open>3.0 \<sqdot> 1.2\<close> and the TTL
  \<open>max 1 (min 120 \<lfloor>5 \<sqdot> 3.6\<rfloor>) = 18\<close> minutes.
\<close>

theorem optimal_ttl_hot_key:
  assumes "accessPatterns st key = Some pattern"
    and "length (filter (\<lambda>time. now - time < 60 * 60 * 1000) pattern) = 60"
    and "hitRates st key = Some h"
    and "total h > 10"
    and "real (hits h) / real (total h) = 0.95"
  shows "calculateOptimalTTL now key 5 st = 18"
proof -
  have "length (filter (\<lambda>time. now - time < 60 * 60 * 1000) pattern) \<le> length pattern"
    by (rule length_filter_le)
  with assms(2) have long: "\<not> length pattern < 5"
    by simp
  have excellent: "real (hits h) / real (total h) > 0.9"
    unfolding assms(5) by simp
  show ?thesis
    using assms(1-4) long excellent by (simp add: calculateOptimalTTL_def Let_def)
qed

theorem optimal_ttl_hot_key_witness:
  "calculateOptimalTTL 3600000 ''K'' 5
     \<lparr>cache = (Map.empty :: nat cache),
      accessPatterns = [''K'' \<mapsto> replicate 60 3000000],
      hitRates = [''K'' \<mapsto> \<lparr>hits = 19, total = 20\<rparr>]\<rparr> = 18"
  using optimal_ttl_hot_key [of
      "\<lparr>cache = (Map.empty :: nat cache), accessPatterns = [''K'' \<mapsto> replicate 60 3000000],
        hitRates = [''K'' \<mapsto> \<lparr>hits = 19, total = 20\<rparr>]\<rparr>"
      "''K''" "replicate 60 3000000" 3600000 "\<lparr>hits = 19, total = 20\<rparr>"]
  by simp

section \<open>Properties of resource admission\<close>

lemma limitKey_activeDispatch: "limitKey ''activeDispatch'' = ''maxActiveDispatch''"
  by (simp add: limitKey_def toUpperCase_char_def)

lemma limitKey_databaseConnections:
  "limitKey ''databaseConnections'' = ''maxDatabaseConnections''"
  by (simp add: limitKey_def toUpperCase_char_def)

text \<open>
  Where the derived key is one of the table's, admission works as the limits intend:
  a database connection is granted while the count stays within 50.
\<close>

lemma acquire_databaseConnections:
  "resourceUsage st ''databaseConnections'' = Some u \<Longrightarrow> u + n \<le> 50 \<Longrightarrow>
   acquireResource ''databaseConnections'' n st =
     (Inr \<lparr>handleResourceType = ''databaseConnections'', handleAmount = n\<rparr>,
      st\<lparr>resourceUsage := (resourceUsage st)(''databaseConnections'' \<mapsto> u + n)\<rparr>)"
  by (simp add: acquireResource_def limitKey_databaseConnections resourceLimits_def)

text \<open>
  C1: \<^verbatim>\<open>acquireResource('activeDispatch', n)\<close> should admit while
  \<open>current + n \<le> 100\<close>. The limit is looked up under the key derived from the resource
  type, \<^verbatim>\<open>maxActiveDispatch\<close>, while the table names it \<^verbatim>\<open>maxConcurrentDispatch\<close>:
  the lookup is \<^verbatim>\<open>undefined\<close> and every call, whatever the count and the amount,
  throws \<^verbatim>\<open>Error('Undefined resource type: activeDispatch')\<close> and leaves the counters
  as they were.
\<close>

theorem acquire_activeDispatch_undefined:
  "acquireResource ''activeDispatch'' n st =
     (Inl (Error ''Undefined resource type: activeDispatch''), st)"
  by (simp add: acquireResource_def limitKey_activeDispatch resourceLimits_def)

section \<open>Properties of the job scheduler\<close>

lemma startsWith_append [simp]: "startsWith (p @ s) p"
  by (induction p) auto

lemma timeout_message_includes [simp]: "js_includes (timeoutMessage j) ''Job timed out''"
proof -
  have "timeoutMessage j = ''Job timed out'' @ ('' after '' @ show_int (timeout (options j)) @ ''ms'')"
    by (simp add: timeoutMessage_def)
  then have "startsWith (timeoutMessage j) ''Job timed out''"
    by (simp only: startsWith_append)
  then show ?thesis
    by (cases "timeoutMessage j") (auto simp: timeoutMessage_def)
qed

lemmas scheduler_defs =
  tickRuns_def getReadyJobs_def scheduleJob_def newJob_def emptyScheduler_def
  calculateNextRun_def executeJob_def raceError_def handleJobError_def handleJobTimeout_def
  handleJobSuccess_def isOneShot_def removeJob_def elapsed_def Let_def

text \<open>
  C2, as stated: with \<open>maxRetries = 2\<close> the job would still be in the table after its
  second failure, with \<open>retryCount = 2\<close> and \<open>nextRun = now + 60 s\<close>, and be removed by a
  third failure. Scheduled for epoch 0 and failing at 0 and at 30000, the job is gone
  after the second failure: \<open>retryCount\<close> has reached \<open>maxRetries\<close>, no retry is
  scheduled and \<^verbatim>\<open>finally\<close> removes it.
\<close>

theorem two_retries_counterexample:
  "\<not> (map_option retryCount (map_of (jobs
          (tickRuns 30000 30000 ''job'' (Throws (Error ''boom''))
            (tickRuns 0 0 ''job'' (Throws (Error ''boom''))
              (scheduleJob 0 ''job'' (Epoch 0)
                 \<lparr>optPriority = None, optMaxRetries = Some 2, optTimeout = None\<rparr>
                 emptyScheduler)))) ''job'') = Some 2)"
  by (simp add: scheduler_defs)

text \<open>
  The two kinds of thrown value that the error handler does not see. A thrown
  \<^verbatim>\<open>undefined\<close> makes the \<^verbatim>\<open>catch\<close> block itself throw on \<^verbatim>\<open>error.message\<close>: the
  job keeps the status running and \<open>retryCount = 0\<close>. An error whose message contains
  \<^verbatim>\<open>Job timed out\<close> is handled as a timeout, which retries after 60 s.
\<close>

lemma throws_outside_the_error_handler:
  "map_option retryCount (map_of (jobs
      (tickRuns 0 0 ''job'' (Throws ThrownUndefined)
        (scheduleJob 0 ''job'' (Epoch 0)
           \<lparr>optPriority = None, optMaxRetries = Some 2, optTimeout = None\<rparr> emptyScheduler)))
      ''job'') = Some 0 \<and>
   map_option status (map_of (jobs
      (tickRuns 0 0 ''job'' (Throws ThrownUndefined)
        (scheduleJob 0 ''job'' (Epoch 0)
           \<lparr>optPriority = None, optMaxRetries = Some 2, optTimeout = None\<rparr> emptyScheduler)))
      ''job'') = Some Running \<and>
   map_option nextRun (map_of (jobs
      (tickRuns 0 0 ''job'' (Throws (Error ''Job timed out upstream''))
        (scheduleJob 0 ''job'' (Epoch 0)
           \<lparr>optPriority = None, optMaxRetries = Some 2, optTimeout = None\<rparr> emptyScheduler)))
      ''job'') = Some 60000"
  by (simp add: scheduler_defs)

text \<open>
  C2, amended: a one-shot job scheduled at epoch \<open>now\<close> with \<open>maxRetries = 2\<close> whose
  function always throws an error object (not \<^verbatim>\<open>undefined\<close>) whose message does not
  contain \<^verbatim>\<open>Job timed out\<close>. After the first failure (handled at \<open>f1\<close>; \<open>f1 = now\<close>
  when the run takes no time) the job is in the table with \<open>retryCount = 1\<close>, status
  scheduled and \<open>nextRun = f1 + 30 s\<close>. After the second failure, run at that
  \<open>nextRun\<close>, the job is removed from the table and the critical action
  \<^verbatim>\<open>job_failed_max_retries\<close> is logged; no tick finds it ready again.
\<close>

theorem one_shot_two_failures:
  fixes now f1 f2 :: int and jid :: string and e :: js_error
  assumes "\<not> js_includes (message e) ''Job timed out''" and "e \<noteq> ThrownUndefined"
  defines "s0 \<equiv> scheduleJob now jid (Epoch now)
                   \<lparr>optPriority = None, optMaxRetries = Some 2, optTimeout = None\<rparr> emptyScheduler"
  defines "s1 \<equiv> tickRuns now f1 jid (Throws e) s0"
  defines "s2 \<equiv> tickRuns (f1 + 30000) f2 jid (Throws e) s1"
  shows "map_option retryCount (map_of (jobs s1) jid) = Some 1 \<and>
         map_option nextRun (map_of (jobs s1) jid) = Some (f1 + 30000) \<and>
         map_option status (map_of (jobs s1) jid) = Some Scheduled \<and>
         map_of (jobs s2) jid = None \<and>
         schedulerLog s2 = [(''system'', ''job_failed_max_retries'', jid)] \<and>
         (\<forall>t. getReadyJobs t s2 = [])"
  using assms(1,2) unfolding s0_def s1_def s2_def
  by (cases e) (simp_all add: scheduler_defs)

theorem one_shot_two_failures_witness:
  "map_option retryCount (map_of (jobs
      (tickRuns 0 0 ''job'' (Throws (Error ''boom''))
        (scheduleJob 0 ''job'' (Epoch 0)
           \<lparr>optPriority = None, optMaxRetries = Some 2, optTimeout = None\<rparr> emptyScheduler)))
      ''job'') = Some 1 \<and>
   map_option nextRun (map_of (jobs
      (tickRuns 0 0 ''job'' (Throws (Error ''boom''))
        (scheduleJob 0 ''job'' (Epoch 0)
           \<lparr>optPriority = None, optMaxRetries = Some 2, optTimeout = None\<rparr> emptyScheduler)))
      ''job'') = Some 30000 \<and>
   map_of (jobs
      (tickRuns 30000 30000 ''job'' (Throws (Error ''boom''))
        (tickRuns 0 0 ''job'' (Throws (Error ''boom''))
          (scheduleJob 0 ''job'' (Epoch 0)
             \<lparr>optPriority = None, optMaxRetries = Some 2, optTimeout = None\<rparr> emptyScheduler))))
      ''job'' = None \<and>
   schedulerLog
      (tickRuns 30000 30000 ''job'' (Throws (Error ''boom''))
        (tickRuns 0 0 ''job'' (Throws (Error ''boom''))
          (scheduleJob 0 ''job'' (Epoch 0)
             \<lparr>optPriority = None, optMaxRetries = Some 2, optTimeout = None\<rparr> emptyScheduler)))
     = [(''system'', ''job_failed_max_retries'', ''job'')]"
  using one_shot_two_failures
          [where e = "Error ''boom''" and now = 0 and jid = "''job''" and ?f1.0 = 0 and ?f2.0 = 30000]
  by simp

text \<open>
  C3: a one-shot job is to leave the table once it is terminal. A one-shot job with
  \<open>maxRetries = 1\<close> whose run times out has no retry left, yet \<^verbatim>\<open>finally\<close> removes
  only the statuses \<^verbatim>\<open>completed\<close> and \<^verbatim>\<open>failed\<close>: the job stays in the table
  with status \<^verbatim>\<open>timeout\<close>, and no later tick finds it ready. The same job failing
  with an ordinary error, or completing, is removed.
\<close>

theorem timed_out_one_shot_stays:
  fixes now f1 :: int and jid :: string
  defines "s0 \<equiv> scheduleJob now jid (Epoch now)
                   \<lparr>optPriority = None, optMaxRetries = Some 1, optTimeout = None\<rparr> emptyScheduler"
  shows "map_option status (map_of (jobs (tickRuns now f1 jid TimerFires s0)) jid) = Some Timeout \<and>
         map_option retryCount (map_of (jobs (tickRuns now f1 jid TimerFires s0)) jid) = Some 1 \<and>
         schedulerLog (tickRuns now f1 jid TimerFires s0) =
           [(''system'', ''job_timeout_max_retries'', jid)] \<and>
         (\<forall>t. getReadyJobs t (tickRuns now f1 jid TimerFires s0) = []) \<and>
         map_of (jobs (tickRuns now f1 jid (Throws (Error ''boom'')) s0)) jid = None \<and>
         map_of (jobs (tickRuns now f1 jid Returns s0)) jid = None"
  unfolding s0_def by (simp add: scheduler_defs)

section \<open>Properties of the circuit breaker\<close>

lemma attemptLoop_fail:
  "attempt \<le> retryAttempts opts \<Longrightarrow> trackFunction (fst (operation attempt)) = Inl e \<Longrightarrow>
   attemptLoop opts key operation attempt le st =
     attemptLoop opts key operation (attempt + 1) (Some e)
       (failedAttempt opts key attempt e (invoked operation attempt st))"
  by (subst attemptLoop.simps) simp


lemma attemptLoop_done:
  "\<not> attempt \<le> retryAttempts opts \<Longrightarrow>
   attemptLoop opts key operation attempt le st = (Inl le, st)"
  by (subst attemptLoop.simps) simp

lemma invocations_recordFailure [simp]:
  "invocations (recordFailure key e m r st) = invocations st"
  by (simp add: recordFailure_def recordErrorPattern_def Let_def)

lemma invocations_failedAttempt [simp]:
  "invocations (failedAttempt opts key attempt e st) = invocations st"
  by (simp add: failedAttempt_def delay_def Let_def)

lemma invocations_invoked [simp]:
  "invocations (invoked operation attempt st) = invocations st + 1"
  by (simp add: invoked_def)

lemma attemptLoop_all_fail:
  assumes "\<forall>i. attempt \<le> i \<and> i \<le> retryAttempts opts \<longrightarrow> trackFunction (fst (operation i)) = Inl (errs i)"
  shows "fst (attemptLoop opts key operation attempt le st) =
           Inl (if attempt \<le> retryAttempts opts then Some (errs (retryAttempts opts)) else le) \<and>
         invocations (snd (attemptLoop opts key operation attempt le st)) =
           invocations st + (retryAttempts opts + 1 - attempt)"
  using assms
proof (induction opts key operation attempt le st rule: attemptLoop.induct)
  case (1 opts key operation attempt le st)
  show ?case
  proof (cases "attempt \<le> retryAttempts opts")
    case False
    then show ?thesis by (simp add: attemptLoop_done)
  next
    case True
    with "1.prems" have e: "trackFunction (fst (operation attempt)) = Inl (errs attempt)"
      by simp
    have later: "\<forall>i. attempt + 1 \<le> i \<and> i \<le> retryAttempts opts \<longrightarrow> trackFunction (fst (operation i)) = Inl (errs i)"
      using "1.prems" by simp
    note IH = "1.IH" [OF True e later]
    note step = attemptLoop_fail [where opts = opts and operation = operation and attempt = attempt
        and e = "errs attempt" and key = key and le = le and st = st, OF True e]
    have last: "\<not> attempt + 1 \<le> retryAttempts opts \<Longrightarrow> errs attempt = errs (retryAttempts opts)"
      using True by (simp add: le_antisym not_less_eq_eq)
    show ?thesis
      unfolding step using IH True last by (auto simp: Suc_diff_le)
  qed
qed



lemma invocations_isCircuitOpen [simp]:
  "invocations (snd (isCircuitOpen key st)) = invocations st"
  by (auto simp: isCircuitOpen_def split: option.splits)

lemma handle_unfold:
  "handleAsyncWithCircuitBreaker now operation operationName ident opts st =
     (let key = operationName @ ''_'' @ ident;
          chk = isCircuitOpen key (st\<lparr>clock := now\<rparr>)
      in if fst chk then (Inl (circuitOpenError operationName), snd chk)
         else
           let r = attemptLoop opts key operation 1 None (snd chk)
           in case fst r of
                Inr result \<Rightarrow> (Inr result, snd r)
              | Inl lastThrown \<Rightarrow>
                  (Inl (case lastThrown of None \<Rightarrow> ThrownUndefined | Some e \<Rightarrow> e),
                   (snd r)\<lparr>breakerLog := breakerLog (snd r) @
                       [(''system'', ''operation_failed_all_retries'', operationName)]\<rparr>))"
  by (auto simp: handleAsyncWithCircuitBreaker_def Let_def split: prod.splits sum.splits)

lemma trackFunction_Inl:
  "trackFunction (Inl e :: js_error + 'a) =
     Inl (if e = ThrownUndefined
          then TypeError ''Cannot read properties of undefined (reading message)'' else e)"
  by (cases e) (simp_all add: trackFunction_def)

lemma trackFunction_Inr [simp]: "trackFunction (Inr v) = Inr v"
  by (simp add: trackFunction_def)


text \<open>
  C4, as stated: an error of class \<^verbatim>\<open>NotFound\<close> is rethrown at once, without further
  attempts. The \<^verbatim>\<open>catch\<close> block of the retry loop does not look at the error: with
  the default options, an operation that throws
  \<^verbatim>\<open>HttpsError('not-found', ...)\<close> on every call is invoked three times before
  the error is propagated.
\<close>

theorem not_found_is_retried_counterexample:
  "invocations (snd (handleAsyncWithCircuitBreaker 0
      (\<lambda>attempt. (Inl (HttpsError ''not-found'' ''No optimal drivers found.''), 0) :: (js_error + unit) \<times> nat)
      ''dispatch'' ''vendorA'' defaultOptions initialBreakers)) = 3 \<and>
   fst (handleAsyncWithCircuitBreaker 0
      (\<lambda>attempt. (Inl (HttpsError ''not-found'' ''No optimal drivers found.''), 0) :: (js_error + unit) \<times> nat)
      ''dispatch'' ''vendorA'' defaultOptions initialBreakers) =
     Inl (HttpsError ''not-found'' ''No optimal drivers found.'')"
proof -
  let ?op = "\<lambda>attempt::nat. (Inl (HttpsError ''not-found'' ''No optimal drivers found.''), 0::nat) :: (js_error + unit) \<times> nat"
  have loop: "\<And>st. fst (attemptLoop defaultOptions ''dispatch_vendorA'' ?op 1 None st) =
                 Inl (Some (HttpsError ''not-found'' ''No optimal drivers found.'')) \<and>
              invocations (snd (attemptLoop defaultOptions ''dispatch_vendorA'' ?op 1 None st)) =
                 invocations st + 3"
    using attemptLoop_all_fail [where operation = ?op and opts = defaultOptions and attempt = 1
        and errs = "\<lambda>i. HttpsError ''not-found'' ''No optimal drivers found.''"]
    by (simp add: defaultOptions_def trackFunction_Inl)
  show ?thesis
    using loop [of "initialBreakers\<lparr>clock := 0\<rparr>"]
    by (simp add: handle_unfold Let_def isCircuitOpen_def initialBreakers_def)
qed

text \<open>
  C4, amended: the retry wrapper treats every error alike. Whatever the wrapped operation
  throws (the five classes named in the claim included), unless the breaker rejects the
  call at entry, a failing operation is invoked once per attempt up to
  \<^verbatim>\<open>retryAttempts\<close> and the error of the last attempt is propagated. The one value
  that does not arrive as thrown is \<^verbatim>\<open>undefined\<close>: the performance monitor's
  \<^verbatim>\<open>catch\<close> block fails on reading its message, and the caller receives that
  \<^verbatim>\<open>TypeError\<close> after the same number of attempts.
\<close>

theorem every_error_is_retried:
  assumes "\<not> fst (isCircuitOpen (operationName @ ''_'' @ ident) (st\<lparr>clock := now\<rparr>))"
    and "\<forall>i. 1 \<le> i \<and> i \<le> retryAttempts opts \<longrightarrow> fst (operation i) = Inl (errs i)"
    and "1 \<le> retryAttempts opts"
  shows "fst (handleAsyncWithCircuitBreaker now operation operationName ident opts st) =
           Inl (if errs (retryAttempts opts) = ThrownUndefined
                then TypeError ''Cannot read properties of undefined (reading message)''
                else errs (retryAttempts opts)) \<and>
         invocations (snd (handleAsyncWithCircuitBreaker now operation operationName ident opts st)) =
           invocations st + retryAttempts opts"
proof -
  let ?key = "operationName @ ''_'' @ ident"
  let ?st1 = "snd (isCircuitOpen ?key (st\<lparr>clock := now\<rparr>))"
  let ?seen = "\<lambda>i. if errs i = ThrownUndefined
                   then TypeError ''Cannot read properties of undefined (reading message)''
                   else errs i"
  have seen: "\<forall>i. 1 \<le> i \<and> i \<le> retryAttempts opts \<longrightarrow>
                trackFunction (fst (operation i)) = Inl (?seen i)"
    using assms(2) by (simp add: trackFunction_Inl)
  have loop: "fst (attemptLoop opts ?key operation 1 None ?st1) =
                Inl (Some (?seen (retryAttempts opts))) \<and>
              invocations (snd (attemptLoop opts ?key operation 1 None ?st1)) =
                invocations ?st1 + (retryAttempts opts + 1 - 1)"
    using attemptLoop_all_fail [where attempt = 1 and opts = opts and operation = operation
        and errs = ?seen and key = ?key and le = None and st = ?st1, OF seen] assms(3)
    by simp
  show ?thesis
    using loop assms(1) by (simp add: handle_unfold Let_def)
qed

theorem every_error_is_retried_witness:
  "fst (handleAsyncWithCircuitBreaker 0
      (\<lambda>attempt. (Inl (HttpsError ''permission-denied'' ''denied''), 0) :: (js_error + unit) \<times> nat)
      ''dispatch'' ''vendorA'' defaultOptions initialBreakers) =
     Inl (HttpsError ''permission-denied'' ''denied'') \<and>
   invocations (snd (handleAsyncWithCircuitBreaker 0
      (\<lambda>attempt. (Inl (HttpsError ''permission-denied'' ''denied''), 0) :: (js_error + unit) \<times> nat)
      ''dispatch'' ''vendorA'' defaultOptions initialBreakers)) = 3 \<and>
   fst (handleAsyncWithCircuitBreaker 0
      (\<lambda>attempt. (Inl ThrownUndefined, 0) :: (js_error + unit) \<times> nat)
      ''dispatch'' ''vendorA'' defaultOptions initialBreakers) =
     Inl (TypeError ''Cannot read properties of undefined (reading message)'') \<and>
   invocations (snd (handleAsyncWithCircuitBreaker 0
      (\<lambda>attempt. (Inl ThrownUndefined, 0) :: (js_error + unit) \<times> nat)
      ''dispatch'' ''vendorA'' defaultOptions initialBreakers)) = 3"
  using every_error_is_retried [where now = 0 and st = initialBreakers and opts = defaultOptions
      and operationName = "''dispatch''" and ident = "''vendorA''"
      and operation = "\<lambda>attempt. (Inl (HttpsError ''permission-denied'' ''denied''), 0) :: (js_error + unit) \<times> nat"
      and errs = "\<lambda>i. HttpsError ''permission-denied'' ''denied''"]
    every_error_is_retried [where now = 0 and st = initialBreakers and opts = defaultOptions
      and operationName = "''dispatch''" and ident = "''vendorA''"
      and operation = "\<lambda>attempt. (Inl ThrownUndefined, 0) :: (js_error + unit) \<times> nat"
      and errs = "\<lambda>i. ThrownUndefined"]
  by (simp add: isCircuitOpen_def initialBreakers_def defaultOptions_def)

subsection \<open>The breaker of one key through a run\<close>

lemma circuitBreakers_invoked [simp]:
  "circuitBreakers (invoked operation attempt st) = circuitBreakers st"
  by (simp add: invoked_def)

lemma clock_invoked [simp]:
  "clock (invoked operation attempt st) = clock st + int (snd (operation attempt))"
  by (simp add: invoked_def)

lemma recordFailure_on_open:
  "circuitBreakers st key = Some b \<Longrightarrow> state b = OPEN \<Longrightarrow>
   circuitBreakers (recordFailure key e m r st) = circuitBreakers st \<and>
   clock (recordFailure key e m r st) = clock st"
  by (auto simp: recordFailure_def Let_def)

lemma recordFailure_on_half_open:
  "circuitBreakers st key = Some b \<Longrightarrow> state b = HALF_OPEN \<Longrightarrow>
   circuitBreakers (recordFailure key e m r st) key =
     Some (b\<lparr>failures := failures b + 1, state := OPEN, resetTime := clock st + r\<rparr>) \<and>
   clock (recordFailure key e m r st) = clock st"
  by (simp add: recordFailure_def recordErrorPattern_def Let_def)















section \<open>Properties of the threat meter\<close>

lemma detect_score:
  "fst (detectAdvancedThreats env userId activity contextData st) =
     fst (calculateThreatScore env userId activity contextData
            (addActivityToPattern env userId activity st))"
  by (simp add: detectAdvancedThreats_def Let_def split: prod.splits)

lemma userUpdates_addActivity [simp]:
  "userUpdates (addActivityToPattern env userId activity st) = userUpdates st"
  "security_incidents (addActivityToPattern env userId activity st) = security_incidents st"
  by (simp_all add: addActivityToPattern_def Let_def)

lemma userUpdates_calculate [simp]:
  "userUpdates (snd (calculateThreatScore env userId activity contextData st)) = userUpdates st"
  "security_incidents (snd (calculateThreatScore env userId activity contextData st)) =
     security_incidents st"
  by (simp_all add: calculateThreatScore_def Let_def)

lemma userUpdates_metrics [simp]:
  "userUpdates (updateSecurityMetrics env score st) = userUpdates st"
  "security_incidents (updateSecurityMetrics env score st) = security_incidents st"
  "userUpdates (bumpMetrics f st) = userUpdates st"
  "security_incidents (bumpMetrics f st) = security_incidents st"
  by (simp_all add: updateSecurityMetrics_def bumpMetrics_def Let_def)

lemma detect_unfold:
  "detectAdvancedThreats env userId activity contextData st =
     (let r = calculateThreatScore env userId activity contextData
                (addActivityToPattern env userId activity st);
          st3 = (if fst r \<ge> 75 then
                   bumpMetrics (\<lambda>m. m\<lparr>highThreats := highThreats m + 1\<rparr>)
                     (handleHighThreatActivity userId activity (fst r) (snd r))
                 else if fst r \<ge> 50 then
                   bumpMetrics (\<lambda>m. m\<lparr>mediumThreats := mediumThreats m + 1\<rparr>)
                     (handleMediumThreatActivity userId activity (fst r) (snd r))
                 else if fst r \<ge> 30 then
                   bumpMetrics (\<lambda>m. m\<lparr>lowThreats := lowThreats m + 1\<rparr>) (snd r)
                 else snd r)
      in (fst r, updateSecurityMetrics env (fst r) st3))"
  by (simp add: detectAdvancedThreats_def Let_def split: prod.splits)

lemma detect_high_writes:
  assumes "fst (detectAdvancedThreats env userId activity contextData st) = score"
    and "score \<ge> 75"
  shows "userUpdates (snd (detectAdvancedThreats env userId activity contextData st)) =
           userUpdates st @
             [(userId, \<lparr>securityFlag = ''HIGH_THREAT'', threatScore = score,
                        lastThreatActivity = activity, suspended = (score > 95)\<rparr>)] \<and>
         security_incidents (snd (detectAdvancedThreats env userId activity contextData st)) =
           security_incidents st @
             [\<lparr>incidentUserId = userId, incidentActivity = activity,
               incidentThreatScore = score, severity = ''HIGH'',
               autoActions = [''account_flagged'', ''admin_notified''] @
                             (if score > 95 then [''account_suspended''] else []),
               requiresReview = False\<rparr>]"
proof -
  let ?r = "calculateThreatScore env userId activity contextData
              (addActivityToPattern env userId activity st)"
  have r: "fst ?r = score"
    using assms(1) by (simp add: detect_score)
  have "snd (detectAdvancedThreats env userId activity contextData st) =
          updateSecurityMetrics env score
            (bumpMetrics (\<lambda>m. m\<lparr>highThreats := highThreats m + 1\<rparr>)
               (handleHighThreatActivity userId activity score (snd ?r)))"
    using r assms(2) by (simp add: detect_unfold Let_def)
  then show ?thesis
    by (simp add: handleHighThreatActivity_def)
qed

text \<open>
  C7, as stated: a computed score of at least 95 suspends the subject. The guard is the
  strict \<^verbatim>\<open>suspended: score > 95\<close>. A subject with several devices, rapid location
  changes, an unusual user agent and an unusual transaction pattern scores
  \<open>20 + 30 + 15 + 30 = 95\<close>: flagged \<^verbatim>\<open>HIGH_THREAT\<close>, not suspended.
\<close>

theorem score_95_not_suspended_counterexample:
  "let env = \<lparr>timeNow = 1000000, hourNow = 12, suspiciousIPs = {}, maliciousIPs = {},
              readBehavior = (\<lambda>u. Inr (Some \<lparr>activities = Map.empty, activeHours = [12]\<rparr>))\<rparr>;
       ctx = \<lparr>multipleDevices = True, rapidLocationChanges = True, unusualUserAgent = True,
              excessiveFailedLogins = False, clientIP = ''203.0.113.7'', vpnDetected = False,
              torDetected = False, automatedBehaviorDetected = False,
              unusualTransactionPattern = True\<rparr>;
       result = detectAdvancedThreats env ''u1'' ''login'' ctx initialSecurity
   in fst result = 95 \<and>
      map (\<lambda>w. (fst w, securityFlag (snd w), suspended (snd w))) (userUpdates (snd result)) =
        [(''u1'', ''HIGH_THREAT'', False)]"
proof -
  let ?env = "\<lparr>timeNow = 1000000, hourNow = 12, suspiciousIPs = {}, maliciousIPs = {},
              readBehavior = (\<lambda>u. Inr (Some \<lparr>activities = Map.empty, activeHours = [12]\<rparr>))\<rparr>"
  let ?ctx = "\<lparr>multipleDevices = True, rapidLocationChanges = True, unusualUserAgent = True,
              excessiveFailedLogins = False, clientIP = ''203.0.113.7'', vpnDetected = False,
              torDetected = False, automatedBehaviorDetected = False,
              unusualTransactionPattern = True\<rparr>"
  have score: "fst (detectAdvancedThreats ?env ''u1'' ''login'' ?ctx initialSecurity) = 95"
    by (simp add: detect_score calculateThreatScore_def Let_def
        analyzeSessionBehavior_def analyzeNetworkPatterns_def analyzeTemporalPatterns_def
        hasRapidActionPattern_def analyzeBehaviorAnomalies_def checkBehaviorPatterns_def
        addActivityToPattern_def initialSecurity_def)
  show ?thesis
    using detect_high_writes [OF score] score
    by (simp add: Let_def initialSecurity_def)
qed

text \<open>
  C7, amended: every evaluation whose computed score is at least 75 flags the subject
  \<^verbatim>\<open>HIGH_THREAT\<close> and records an incident of severity \<^verbatim>\<open>HIGH\<close>; the subject is
  marked suspended (and the incident lists \<^verbatim>\<open>account_suspended\<close>) exactly when the
  score is strictly greater than 95.
\<close>

theorem high_threat_suspends_above_95:
  assumes "fst (detectAdvancedThreats env userId activity contextData st) = score"
    and "score \<ge> 75"
  shows "map (\<lambda>w. (fst w, securityFlag (snd w), suspended (snd w)))
           (userUpdates (snd (detectAdvancedThreats env userId activity contextData st))) =
         map (\<lambda>w. (fst w, securityFlag (snd w), suspended (snd w))) (userUpdates st) @
           [(userId, ''HIGH_THREAT'', score > 95)] \<and>
         map (\<lambda>i. (incidentUserId i, severity i, ''account_suspended'' \<in> set (autoActions i)))
           (security_incidents (snd (detectAdvancedThreats env userId activity contextData st))) =
         map (\<lambda>i. (incidentUserId i, severity i, ''account_suspended'' \<in> set (autoActions i)))
           (security_incidents st) @ [(userId, ''HIGH'', score > 95)]"
  using detect_high_writes [OF assms] by simp

theorem high_threat_suspends_above_95_witness:
  "let env = \<lparr>timeNow = 1000000, hourNow = 12, suspiciousIPs = {''203.0.113.7''},
              maliciousIPs = {},
              readBehavior = (\<lambda>u. Inr (Some \<lparr>activities = Map.empty, activeHours = [12]\<rparr>))\<rparr>;
       ctx = \<lparr>multipleDevices = True, rapidLocationChanges = True, unusualUserAgent = True,
              excessiveFailedLogins = False, clientIP = ''203.0.113.7'', vpnDetected = False,
              torDetected = False, automatedBehaviorDetected = False,
              unusualTransactionPattern = True\<rparr>;
       result = detectAdvancedThreats env ''u1'' ''login'' ctx initialSecurity
   in fst result = 100 \<and>
      map (\<lambda>w. (fst w, securityFlag (snd w), suspended (snd w))) (userUpdates (snd result)) =
        [(''u1'', ''HIGH_THREAT'', True)] \<and>
      map (\<lambda>i. (incidentUserId i, severity i, ''account_suspended'' \<in> set (autoActions i)))
        (security_incidents (snd result)) = [(''u1'', ''HIGH'', True)]"
proof -
  let ?env = "\<lparr>timeNow = 1000000, hourNow = 12, suspiciousIPs = {''203.0.113.7''},
              maliciousIPs = {},
              readBehavior = (\<lambda>u. Inr (Some \<lparr>activities = Map.empty, activeHours = [12]\<rparr>))\<rparr>"
  let ?ctx = "\<lparr>multipleDevices = True, rapidLocationChanges = True, unusualUserAgent = True,
              excessiveFailedLogins = False, clientIP = ''203.0.113.7'', vpnDetected = False,
              torDetected = False, automatedBehaviorDetected = False,
              unusualTransactionPattern = True\<rparr>"
  have score: "fst (detectAdvancedThreats ?env ''u1'' ''login'' ?ctx initialSecurity) = 100"
    by (simp add: detect_score calculateThreatScore_def addActivityToPattern_def Let_def
        analyzeSessionBehavior_def analyzeNetworkPatterns_def analyzeTemporalPatterns_def
        hasRapidActionPattern_def analyzeBehaviorAnomalies_def checkBehaviorPatterns_def
        initialSecurity_def)
  show ?thesis
    using high_threat_suspends_above_95 [OF score] score
    by (simp add: Let_def initialSecurity_def)
qed

section \<open>Properties of the driver search\<close>

subsection \<open>Rounding a given number\<close>

lemma find_upto_least:
  fixes a b e :: int
  assumes "a \<le> e" and "e \<le> b" and "P e" and "\<forall>k. a \<le> k \<and> k < e \<longrightarrow> \<not> P k"
  shows "find P [a..b] = Some e"
  using assms
proof (induction "nat (e - a)" arbitrary: a)
  case 0
  then have "a = e"
    by simp
  with 0 show ?case
    by (simp add: upto_rec1)
next
  case (Suc n)
  then have lt: "a < e"
    by linarith
  then have "\<not> P a"
    using Suc.prems by simp
  moreover have "find P [a + 1..b] = Some e"
    using Suc lt by (intro Suc.hyps) auto
  ultimately show ?case
    using lt Suc.prems by (simp add: upto_rec1)
qed

lemma binade_eq:
  assumes "2 powi e \<le> \<bar>x\<bar>" and "\<bar>x\<bar> < 2 powi (e + 1)" and "- 1022 \<le> e" and "e \<le> 1023"
  shows "binade x = e"
proof -
  have "\<not> \<bar>x\<bar> < 2 powi (k + 1)" if "k < e" for k
  proof -
    have "(2::real) powi (k + 1) \<le> 2 powi e"
      using that by (intro power_int_increasing) auto
    with assms(1) show ?thesis
      by linarith
  qed
  then have "find (\<lambda>e. \<bar>x\<bar> < 2 powi (e + 1)) [- 1022 .. 1023] = Some e"
    using assms by (intro find_upto_least) auto
  then show ?thesis
    by (simp add: binade_def)
qed

text \<open>
  The double nearest to \<open>x\<close>, once the binade \<open>e\<close> of \<open>x\<close> is known: \<open>x\<close> is rounded to
  a multiple of \<open>2 powi (e - 52)\<close>.
\<close>

lemma double_at:
  assumes "2 powi e \<le> \<bar>x\<bar>" and "\<bar>x\<bar> < 2 powi (e + 1)" and "- 1022 \<le> e" and "e \<le> 1023"
  shows "double x = of_int (roundTiesToEven (x / 2 powi (e - 52))) * 2 powi (e - 52)"
  by (simp add: double_def Let_def binade_eq [OF assms])

lemmas double_eval =
  double_at [where e = "- 8"] double_at [where e = "- 7"] double_at [where e = "- 2"]
  double_at [where e = 1] double_at [where e = 4] double_at [where e = 5]
  double_at [where e = 6] double_at [where e = 7] double_at [where e = 10]
  roundTiesToEven_def power_int_minus

lemma gridSize_val: "gridSize = 5764607523034235 / 2 ^ 59"
  by (simp add: gridSize_def double_eval)

subsection \<open>The loops and the keys\<close>

lemma stepsFrom_step:
  "x \<le> hi \<Longrightarrow>
   stepsFrom x hi = Option.bind (stepsFrom (double (x + gridSize)) hi) (\<lambda>rest. Some (x # rest))"
  by (subst stepsFrom.simps) simp

lemma stepsFrom_stop: "\<not> x \<le> hi \<Longrightarrow> stepsFrom x hi = Some []"
  by (subst stepsFrom.simps) simp

lemma set_insertionOrder [simp]: "set (insertionOrder xs) = set xs"
  by (simp add: insertionOrder_def)

lemma getGridKey_fst:
  "fst (getGridKey lat lon) =
     toFixed6 (double (of_int \<lfloor>double (lat / gridSize)\<rfloor> * gridSize))"
  by (simp add: getGridKey_def Let_def)

text \<open>
  The latitude part of every key that \<^verbatim>\<open>getNearbyGridKeys\<close> returns is the grid
  latitude of a value the outer loop takes.
\<close>

lemma nearby_keys_latitudes:
  assumes "getNearbyGridKeys m lat lon radiusMiles = Some ks"
    and "stepsFrom
           (double (of_int \<lfloor>double (double (lat - double (radiusMiles / 69)) / gridSize)\<rfloor> * gridSize))
           (double (of_int \<lceil>double (double (lat + double (radiusMiles / 69)) / gridSize)\<rceil> * gridSize))
         = Some lats"
  shows "fst ` set ks \<subseteq>
           (\<lambda>la. toFixed6 (double (of_int \<lfloor>double (la / gridSize)\<rfloor> * gridSize))) ` set lats"
proof
  fix k
  assume "k \<in> fst ` set ks"
  then obtain key where key: "key \<in> set ks" "k = fst key"
    by auto
  from assms key(1) obtain la ln where "la \<in> set lats" "key = getGridKey la ln"
    by (auto simp: getNearbyGridKeys_def Let_def split: if_splits option.splits)
  with key(2)
  show "k \<in> (\<lambda>la. toFixed6 (double (of_int \<lfloor>double (la / gridSize)\<rfloor> * gridSize))) ` set lats"
    by (auto simp: getGridKey_fst)
qed

subsection \<open>The index of one live driver\<close>

lemma index_of_one_driver:
  assumes "hasPosition d" and "seenRecently now d" and "seenRecently now' d"
  shows "updateSpatialIndex now now' [d] = [(driverKey d, [d])]"
  using assms
  by (simp add: updateSpatialIndex_def indexDriver_def cleanupOldIndexEntries_def cell_def Let_def)

lemma cell_of_one: "cell [(key, ds)] k = (if k = key then ds else [])"
  by (simp add: cell_def)

lemma no_cell_visited:
  "key \<notin> set ks \<Longrightarrow> concat (map (cell [(key, ds)]) ks) = []"
  by (induction ks) (auto simp: cell_of_one)

text \<open>
  The index admits a driver whose heartbeat is strictly less than 10 minutes old: one
  seen exactly 10 minutes before the update is left out.
\<close>

lemma heartbeat_10_minutes_old_not_indexed:
  "updateSpatialIndex 600000 600000
     [\<lparr>driverId = ''driver1'', location = Some \<lparr>latitude = 60, longitude = 25\<rparr>,
       active = True, isActive = True, lastSeenOnline = Some 0\<rparr>] = []"
  by (simp add: updateSpatialIndex_def indexDriver_def hasPosition_def seenRecently_def
      cleanupOldIndexEntries_def cell_def Let_def)

subsection \<open>A query at latitude 16.0481\<close>

text \<open>
  The numbers of the query \<^verbatim>\<open>getDriversNearLocation(16.0481, 2.3522, 0.5)\<close>. The
  latitude range is \<open>0.5 / 69\<close>, so the outer loop is to run over the grid latitudes
  from 16.04 to 16.06. It starts at the double \<open>1604 * 0.01\<close>, written 16.04, then takes
  the double written 16.05, and the third sum, 16.060000000000002, is above the bound
  \<open>1606 * 0.01\<close>.
\<close>

lemma query_startLat:
  "double (of_int \<lfloor>double (double (double 16.0481 - double ((1 / 2) / 69)) / gridSize)\<rfloor> * gridSize) =
     2257429313219461 / 2 ^ 47"
  by (simp add: gridSize_val double_eval)

lemma query_endLat:
  "double (of_int \<lceil>double (double (double 16.0481 + double ((1 / 2) / 69)) / gridSize)\<rceil> * gridSize) =
     4520488125973135 / 2 ^ 48"
  by (simp add: gridSize_val double_eval)

lemma query_latitudes:
  "stepsFrom (2257429313219461 / 2 ^ 47) (4520488125973135 / 2 ^ 48) =
     Some [2257429313219461 / 2 ^ 47, 4517673376206029 / 2 ^ 48]"
  by (simp add: stepsFrom_step stepsFrom_stop gridSize_val double_eval)

text \<open>
  \<^verbatim>\<open>getGridKey\<close> divides each of the two by the grid size again.
  \<open>16.04 / 0.01\<close> is the double 1603.9999999999998, whose floor is 1603: the first
  latitude is keyed as 16.03. The second is keyed as 16.05.
\<close>

lemma query_grid_latitudes:
  "toFixed6 (double (of_int \<lfloor>double ((2257429313219461 / 2 ^ 47) / gridSize)\<rfloor> * gridSize)) =
     (False, 16030000)"
  "toFixed6 (double (of_int \<lfloor>double ((4517673376206029 / 2 ^ 48) / gridSize)\<rfloor> * gridSize)) =
     (False, 16050000)"
  by (simp_all add: gridSize_val double_eval toFixed6_def)

text \<open>The point itself lies in the cell 16.04: \<open>16.0481 / 0.01\<close> has the floor 1604.\<close>

lemma point_grid_latitude:
  "fst (getGridKey (double 16.0481) lon) = (False, 16040000)"
  unfolding getGridKey_fst by (simp add: gridSize_val double_eval toFixed6_def)

lemma point_has_position: "double 16.0481 \<noteq> 0 \<and> double 2.3522 \<noteq> 0"
  by (simp add: double_eval)

text \<open>
  C6: after \<^verbatim>\<open>updateSpatialIndex(S)\<close> the radius query is to return every live driver
  of \<open>S\<close> within the radius. \<open>S\<close> holds one driver, at latitude 16.0481 and longitude
  2.3522, active, with a heartbeat at the instant of the update; the index files it
  under the cell 16.04. The query is made at the driver's own position with a radius of
  half a mile. The cells it reads have the latitudes 16.03 and 16.05, never 16.04: for
  every engine's \<^verbatim>\<open>Math.cos\<close>, \<^verbatim>\<open>Math.sin\<close> and \<^verbatim>\<open>Math.atan2\<close> the call returns the
  empty list, unless it does not return at all. The driver is not found.
\<close>

theorem driver_at_query_point_not_returned:
  fixes m :: libm and now :: int
  defines "d \<equiv> \<lparr>driverId = ''driver1'',
                  location = Some \<lparr>latitude = double 16.0481, longitude = double 2.3522\<rparr>,
                  active = True, isActive = True, lastSeenOnline = Some now\<rparr>"
  shows "hasPosition d \<and> seenRecently now d \<and>
         updateSpatialIndex now now [d] = [(driverKey d, [d])] \<and>
         fst (driverKey d) = (False, 16040000) \<and>
         getDriversNearLocation m (updateSpatialIndex now now [d])
           (double 16.0481) (double 2.3522) (1 / 2) \<in> {None, Some (Inr [])}"
proof -
  have pos: "hasPosition d"
    using point_has_position by (simp add: hasPosition_def d_def)
  have live: "seenRecently now d"
    by (simp add: seenRecently_def d_def)
  have idx: "updateSpatialIndex now now [d] = [(driverKey d, [d])]"
    by (rule index_of_one_driver [OF pos live live])
  have cell: "fst (driverKey d) = (False, 16040000)"
    using point_grid_latitude [of "double 2.3522"] by (simp add: driverKey_def d_def)
  have lats: "stepsFrom
      (double (of_int \<lfloor>double (double (double 16.0481 - double ((1 / 2) / 69)) / gridSize)\<rfloor> * gridSize))
      (double (of_int \<lceil>double (double (double 16.0481 + double ((1 / 2) / 69)) / gridSize)\<rceil> * gridSize))
    = Some [2257429313219461 / 2 ^ 47, 4517673376206029 / 2 ^ 48]"
    unfolding query_startLat query_endLat by (rule query_latitudes)
  have "getDriversNearLocation m [(driverKey d, [d])]
          (double 16.0481) (double 2.3522) (1 / 2) \<in> {None, Some (Inr [])}"
  proof (cases "getNearbyGridKeys m (double 16.0481) (double 2.3522) (1 / 2)")
    case None
    show ?thesis
      unfolding getDriversNearLocation_def None by simp
  next
    case (Some ks)
    have "fst ` set ks \<subseteq> {(False, 16030000), (False, 16050000)}"
      using nearby_keys_latitudes [OF Some lats]
      by (simp only: list.set image_insert image_empty query_grid_latitudes)
    with cell have "driverKey d \<notin> set ks"
      by auto
    then have none: "concat (map (cell [(driverKey d, [d])]) ks) = []"
      by (rule no_cell_visited)
    show ?thesis
      unfolding getDriversNearLocation_def Some option.case none by simp
  qed
  with pos live idx cell show ?thesis
    by simp
qed

text \<open>
  The same query on an engine whose cosine is 0.9610299587441189, the double nearest to
  the cosine of 16.0481 degrees: a degree of longitude is 66.31 miles, the inner loop
  runs over three longitudes and the call returns the empty list.
\<close>

lemma query_milesPerDegreeLon: "double (69 * (4328094164091897 / 2 ^ 52)) \<noteq> 0"
  by (simp add: double_eval)

lemma query_startLng:
  "double (of_int \<lfloor>double (double (double 2.3522 -
       double ((1 / 2) / double (69 * (4328094164091897 / 2 ^ 52)))) / gridSize)\<rfloor> * gridSize) =
     658651445502935 / 2 ^ 48"
  by (simp add: gridSize_val double_eval)

lemma query_endLng:
  "double (of_int \<lceil>double (double (double 2.3522 +
       double ((1 / 2) / double (69 * (4328094164091897 / 2 ^ 52)))) / gridSize)\<rceil> * gridSize) =
     5314247560297185 / 2 ^ 51"
  by (simp add: gridSize_val double_eval)

lemma query_longitudes:
  "stepsFrom (658651445502935 / 2 ^ 48) (5314247560297185 / 2 ^ 51) =
     Some [658651445502935 / 2 ^ 48, 1322932390540083 / 2 ^ 49, 166070236259287 / 2 ^ 46]"
  by (simp add: stepsFrom_step stepsFrom_stop gridSize_val double_eval)

theorem driver_at_query_point_not_returned_witness:
  "getDriversNearLocation
     \<lparr>Math_cos = (\<lambda>x. 4328094164091897 / 2 ^ 52), Math_sin = (\<lambda>x. 0),
      Math_atan2 = (\<lambda>y x. 0)\<rparr>
     (updateSpatialIndex 0 0
        [\<lparr>driverId = ''driver1'',
          location = Some \<lparr>latitude = double 16.0481, longitude = double 2.3522\<rparr>,
          active = True, isActive = True, lastSeenOnline = Some 0\<rparr>])
     (double 16.0481) (double 2.3522) (1 / 2) = Some (Inr [])"
proof -
  let ?m = "\<lparr>Math_cos = (\<lambda>x. 4328094164091897 / 2 ^ 52), Math_sin = (\<lambda>x. 0),
             Math_atan2 = (\<lambda>y x. 0)\<rparr>"
  have "getNearbyGridKeys ?m (double 16.0481) (double 2.3522) (1 / 2) \<noteq> None"
    unfolding getNearbyGridKeys_def Let_def libm.select_convs
      query_startLat query_endLat query_latitudes query_startLng query_endLng query_longitudes
    using query_milesPerDegreeLon by simp
  then have "getDriversNearLocation ?m
               (updateSpatialIndex 0 0
                  [\<lparr>driverId = ''driver1'',
                    location = Some \<lparr>latitude = double 16.0481, longitude = double 2.3522\<rparr>,
                    active = True, isActive = True, lastSeenOnline = Some 0\<rparr>])
               (double 16.0481) (double 2.3522) (1 / 2) \<noteq> None"
    by (auto simp: getDriversNearLocation_def)
  with driver_at_query_point_not_returned [where m = ?m and now = 0] show ?thesis
    by blast
qed

subsection \<open>The cached driver lookup\<close>

text \<open>
  C10: a cached empty driver list is to count as a miss, so that the loader (driver
  fetch, index rebuild, radius query) runs again and its result is cached anew. The
  lookup does go past the cache when the cached list is empty, as it does when the key
  is absent or expired. There \<^verbatim>\<open>fetchAndIndexDrivers\<close> throws the
  \<^verbatim>\<open>ReferenceError\<close> of the undeclared \<^verbatim>\<open>getAvailableDrivers\<close>: the call fails, the
  spatial index is not rebuilt, no radius query is made and nothing is written to the
  cache, which keeps the empty list.
\<close>

theorem empty_cached_list_miss_throws:
  assumes "CacheManager_get (driverCache st) tGet (cacheKeyOf orderData dispatchMetadata)
             \<in> {None, Some []}"
  shows "getAvailableDriversOptimized m tGet tIndex tClean tSet orderData dispatchMetadata st =
           (Some (Inl (ReferenceError ''getAvailableDrivers is not defined'')), st)"
  using assms
  by (auto simp: getAvailableDriversOptimized_def fetchAndIndexDrivers_def
      callGetAvailableDrivers_def Let_def)

theorem empty_cached_list_miss_throws_witness:
  "let order = \<lparr>vendorID = ''vendorA'', vendor = Some \<lparr>latitude = 60, longitude = 25\<rparr>\<rparr>;
       meta = \<lparr>zone_id = Some ''zone1'', currentRound = Some 1,
               kDistanceRadiusForDispatchInMiles = Some 10\<rparr>;
       engine = \<lparr>Math_cos = (\<lambda>x. 1 / 2), Math_sin = (\<lambda>x. 0), Math_atan2 = (\<lambda>y x. 0)\<rparr>;
       st0 = \<lparr>driverCache = [''optimized_drivers_vendorA_zone1_1'' \<mapsto>
                                  \<lparr>data = [], timestamp = 0, ttl = 120000\<rparr>],
              spatialIndex = []\<rparr>
   in CacheManager_get (driverCache st0) 1000 (cacheKeyOf order meta) = Some [] \<and>
      getAvailableDriversOptimized engine 1000 1001 1002 1003 order meta st0 =
        (Some (Inl (ReferenceError ''getAvailableDrivers is not defined'')), st0)"
proof -
  let ?order = "\<lparr>vendorID = ''vendorA'', vendor = Some \<lparr>latitude = 60, longitude = 25\<rparr>\<rparr>"
  let ?meta = "\<lparr>zone_id = Some ''zone1'', currentRound = Some 1,
               kDistanceRadiusForDispatchInMiles = Some 10\<rparr>"
  let ?engine = "\<lparr>Math_cos = (\<lambda>x. 1 / 2), Math_sin = (\<lambda>x. 0), Math_atan2 = (\<lambda>y x. 0)\<rparr>"
  let ?st0 = "\<lparr>driverCache = [''optimized_drivers_vendorA_zone1_1'' \<mapsto>
                                  \<lparr>data = ([] :: found_driver list), timestamp = 0, ttl = 120000\<rparr>],
              spatialIndex = []\<rparr>"
  have "show_nat 1 = ''1''"
    by simp
  then have key: "cacheKeyOf ?order ?meta = ''optimized_drivers_vendorA_zone1_1''"
    by (simp add: cacheKeyOf_def)
  have hit: "CacheManager_get (driverCache ?st0) 1000 (cacheKeyOf ?order ?meta) = Some []"
    unfolding key by (simp add: CacheManager_get_def)
  then have "CacheManager_get (driverCache ?st0) 1000 (cacheKeyOf ?order ?meta) \<in> {None, Some []}"
    by simp
  from empty_cached_list_miss_throws [OF this, of ?engine 1001 1002 1003] hit
  show ?thesis
    unfolding Let_def by simp
qed

end
